theory Spec2Isabelle
  imports Main "HOL-Library.AList"
begin

section \<open>The MTF converter (mtf_converter.py), class MTFParser\<close>

text \<open>
  Strings are lists of 8-bit characters: \<open>parse_file\<close> reads its input with the
  latin-1 decoder, so every character of a line is a code point below 256.
  Python dictionaries are association lists with distinct keys, kept in insertion
  order; \<open>AList.update\<close> is the assignment \<open>d[k] = v\<close> (an existing key keeps
  its position, a new key goes to the end) and \<open>map_of\<close> is \<open>d.get(k)\<close>.
  Integers are unbounded, as Python's are.
\<close>

subsection \<open>Python string operations used by the parser\<close>

text \<open>\<open>str.isspace\<close> on the latin-1 code points: the set that \<open>str.strip()\<close>
  removes and that \<open>\s\<close> matches.\<close>

definition is_space :: "char \<Rightarrow> bool" where
  "is_space c = (c \<in> set [CHR 0x09, CHR 0x0A, CHR 0x0B, CHR 0x0C, CHR 0x0D,
                            CHR 0x1C, CHR 0x1D, CHR 0x1E, CHR 0x1F, CHR 0x20,
                            CHR 0x85, CHR 0xA0])"

definition is_digit :: "char \<Rightarrow> bool" where
  "is_digit c = (c \<in> set ''0123456789'')"

definition strip :: "string \<Rightarrow> string" where
  "strip s = rev (dropWhile is_space (rev (dropWhile is_space s)))"

text \<open>\<open>str.lower()\<close>: the upper-case letters of latin-1 are A-Z and
  0xC0-0xDE without the multiplication sign 0xD7; each is 32 below its lower-case
  form.\<close>

definition is_upper :: "char \<Rightarrow> bool" where
  "is_upper c = (let n = (of_char c :: nat)
                 in (65 \<le> n \<and> n \<le> 90) \<or> (192 \<le> n \<and> n \<le> 222 \<and> n \<noteq> 215))"

definition lower_char :: "char \<Rightarrow> char" where
  "lower_char c = (if is_upper c then char_of ((of_char c :: nat) + 32) else c)"

definition lower :: "string \<Rightarrow> string" where
  "lower s = map lower_char s"

text \<open>\<open>s.startswith(p)\<close>, \<open>s.endswith(p)\<close> and \<open>p in s\<close>.\<close>

fun startswith :: "string \<Rightarrow> string \<Rightarrow> bool" where
  "startswith s [] = True"
| "startswith [] (p # ps) = False"
| "startswith (c # cs) (p # ps) = (c = p \<and> startswith cs ps)"

definition endswith :: "string \<Rightarrow> string \<Rightarrow> bool" where
  "endswith s p = startswith (rev s) (rev p)"

fun contains :: "string \<Rightarrow> string \<Rightarrow> bool" where
  "contains [] p = (p = [])"
| "contains (c # cs) p = (startswith (c # cs) p \<or> contains cs p)"

text \<open>\<open>s.replace(old, new)\<close> for a non-empty \<open>old\<close>: the occurrences are
  replaced from left to right and do not overlap. The counter is the number of
  characters of the current occurrence still to be skipped.\<close>

fun replace_from :: "string \<Rightarrow> string \<Rightarrow> nat \<Rightarrow> string \<Rightarrow> string" where
  "replace_from old new n [] = []"
| "replace_from old new (Suc n) (c # cs) = replace_from old new n cs"
| "replace_from old new 0 (c # cs) =
     (if startswith (c # cs) old then new @ replace_from old new (length old - 1) cs
      else c # replace_from old new 0 cs)"

definition replace :: "string \<Rightarrow> string \<Rightarrow> string \<Rightarrow> string" where
  "replace s old new = replace_from old new 0 s"

text \<open>\<open>sep.join(xs)\<close> for a one-character separator.\<close>

fun join :: "char \<Rightarrow> string list \<Rightarrow> string" where
  "join sep [] = []"
| "join sep [x] = x"
| "join sep (x # y # ys) = x @ sep # join sep (y # ys)"

text \<open>\<open>s.split(sep, 1)\<close> for a one-character separator that occurs in \<open>s\<close>:
  the text before the first occurrence and the text after it.\<close>

definition split1 :: "char \<Rightarrow> string \<Rightarrow> string \<times> string" where
  "split1 sep s = (takeWhile (\<lambda>c. c \<noteq> sep) s, drop 1 (dropWhile (\<lambda>c. c \<noteq> sep) s))"

subsection \<open>Critical slot table: \<open>_build_critical_slots\<close>\<close>

text \<open>The canonical location names come from \<open>map_mech_location\<close> of the module
  \<open>enum_mappings\<close>; the builder takes it as the parameter \<open>mml\<close>.\<close>

definition slot_counts :: "(string \<times> nat) list" where
  "slot_counts =
     [(''HEAD'', 6),
      (''CENTER_TORSO'', 12),
      (''LEFT_TORSO'', 12),
      (''RIGHT_TORSO'', 12),
      (''LEFT_ARM'', 12),
      (''RIGHT_ARM'', 12),
      (''LEFT_LEG'', 6),
      (''RIGHT_LEG'', 6),
      (''FRONT_LEFT_LEG'', 6),
      (''FRONT_RIGHT_LEG'', 6),
      (''REAR_LEFT_LEG'', 6),
      (''REAR_RIGHT_LEG'', 6)]"

text \<open>\<open>slot_counts.get(mapped_location, 12)\<close>\<close>

definition max_slots_of :: "string \<Rightarrow> nat" where
  "max_slots_of mapped_location =
     (case map_of slot_counts mapped_location of Some n \<Rightarrow> n | None \<Rightarrow> 12)"

text \<open>The inner loop over the items of one location.\<close>

definition convert_item :: "string \<Rightarrow> string option" where
  "convert_item item = (if item = ''-Empty-'' \<or> item = [] then None else Some item)"

definition normalize_slots :: "nat \<Rightarrow> string option list \<Rightarrow> string option list" where
  "normalize_slots max_slots slot_list =
     (if length slot_list > max_slots then take max_slots slot_list
      else if length slot_list < max_slots
           then slot_list @ replicate (max_slots - length slot_list) None
      else slot_list)"

text \<open>The loop over \<open>criticals.items()\<close>, with the dictionary \<open>slots\<close> as
  accumulator.\<close>

fun critical_slots_loop ::
  "(string \<Rightarrow> string) \<Rightarrow> (string \<times> string list) list \<Rightarrow>
   (string \<times> string option list) list \<Rightarrow> (string \<times> string option list) list" where
  "critical_slots_loop mml [] slots = slots"
| "critical_slots_loop mml ((location, items) # rest) slots =
     (let mapped_location = mml location;
          max_slots = max_slots_of mapped_location;
          slot_list = normalize_slots max_slots (map convert_item items)
      in critical_slots_loop mml rest (AList.update mapped_location slot_list slots))"

definition build_critical_slots ::
  "(string \<Rightarrow> string) \<Rightarrow> (string \<times> string list) list \<Rightarrow>
   (string \<times> string option list) list" where
  "build_critical_slots mml criticals = critical_slots_loop mml criticals []"

text \<open>The locations of capacity 6.\<close>

definition six_slot_locations :: "string set" where
  "six_slot_locations =
     {''HEAD'', ''LEFT_LEG'', ''RIGHT_LEG'', ''FRONT_LEFT_LEG'', ''FRONT_RIGHT_LEG'',
      ''REAR_LEFT_LEG'', ''REAR_RIGHT_LEG''}"

text \<open>Stand-in for \<open>map_mech_location\<close> at concrete inputs.
  Modelled from the spec: \<open>map_mech_location\<close> of \<open>enum_mappings\<close>, which is not
  part of the sources; the spec calls it the location-name canonicalizer (raw name to
  canonical location name). The canonical names of the eight \<open>MECH_LOCATIONS\<close>
  are those of the \<open>slot_counts\<close> table; any other name is left as it is.\<close>

definition canon_location :: "string \<Rightarrow> string" where
  "canon_location location =
     (case map_of [(''Head'', ''HEAD''), (''Center Torso'', ''CENTER_TORSO''),
                   (''Left Torso'', ''LEFT_TORSO''), (''Right Torso'', ''RIGHT_TORSO''),
                   (''Left Arm'', ''LEFT_ARM''), (''Right Arm'', ''RIGHT_ARM''),
                   (''Left Leg'', ''LEFT_LEG''), (''Right Leg'', ''RIGHT_LEG'')] location of
        Some c \<Rightarrow> c | None \<Rightarrow> location)"

subsection \<open>Armor allocation: \<open>_build_armor_allocation\<close>\<close>

text \<open>A value of the output allocation: an integer, or the dictionary
  \<open>{'front': f, 'rear': r}\<close>.\<close>

datatype armor_value = Scalar int | FrontRear int int

definition loc_map :: "(string \<times> string) list" where
  "loc_map =
     [(''LA'', ''LEFT_ARM''),
      (''RA'', ''RIGHT_ARM''),
      (''LT'', ''LEFT_TORSO''),
      (''RT'', ''RIGHT_TORSO''),
      (''CT'', ''CENTER_TORSO''),
      (''HD'', ''HEAD''),
      (''LL'', ''LEFT_LEG''),
      (''RL'', ''RIGHT_LEG''),
      (''RTL'', ''LEFT_TORSO_REAR''),
      (''RTR'', ''RIGHT_TORSO_REAR''),
      (''RTC'', ''CENTER_TORSO_REAR'')]"

text \<open>\<open>loc_map.get(key, key)\<close>\<close>

definition mapped_loc :: "string \<Rightarrow> string" where
  "mapped_loc key = (case map_of loc_map key of Some m \<Rightarrow> m | None \<Rightarrow> key)"

text \<open>First pass: collect front armor.\<close>

fun first_pass ::
  "(string \<times> int) list \<Rightarrow> (string \<times> armor_value) list \<Rightarrow> (string \<times> armor_value) list" where
  "first_pass [] allocation = allocation"
| "first_pass ((key, val) # rest) allocation =
     (if \<not> contains (mapped_loc key) ''REAR''
      then first_pass rest (AList.update (mapped_loc key) (Scalar val) allocation)
      else first_pass rest allocation)"

text \<open>Second pass: merge rear armor into the front locations. The test
  \<open>isinstance(front_value, int)\<close> is the case \<open>Scalar\<close>.\<close>

fun second_pass ::
  "(string \<times> int) list \<Rightarrow> (string \<times> armor_value) list \<Rightarrow> (string \<times> armor_value) list" where
  "second_pass [] allocation = allocation"
| "second_pass ((key, val) # rest) allocation =
     (if contains (mapped_loc key) ''REAR''
      then (let front_loc = replace (mapped_loc key) ''_REAR'' ''''
            in case map_of allocation front_loc of
                 Some (Scalar front_value) \<Rightarrow>
                   second_pass rest (AList.update front_loc (FrontRear front_value val) allocation)
               | _ \<Rightarrow> second_pass rest allocation)
      else second_pass rest allocation)"

definition build_armor_allocation ::
  "(string \<times> int) list \<Rightarrow> (string \<times> armor_value) list" where
  "build_armor_allocation raw_allocation =
     second_pass raw_allocation (first_pass raw_allocation [])"

subsection \<open>Equipment list: \<open>_build_equipment_list\<close>\<close>

text \<open>A weapon mention of the raw record, the dictionary
  \<open>{'name': ..., 'location': ...}\<close>, and the dataclass \<open>SerializedEquipment\<close>.\<close>

record raw_weapon =
  weapon_name :: string
  weapon_location :: string

record serialized_equipment =
  eq_id :: string
  eq_location :: string
  eq_slots :: "int list option"
  eq_isRearMounted :: "bool option"
  eq_linkedAmmo :: "string option"

text \<open>The body of the loop over the weapons; \<open>neid\<close> is
  \<open>normalize_equipment_id\<close> and \<open>mml\<close> is \<open>map_mech_location\<close>, both of
  \<open>enum_mappings\<close>.\<close>

definition build_equipment ::
  "(string \<Rightarrow> string) \<Rightarrow> (string \<Rightarrow> string) \<Rightarrow> raw_weapon \<Rightarrow> serialized_equipment" where
  "build_equipment neid mml weapon =
     (let name = weapon_name weapon;
          location = weapon_location weapon;
          is_rear = (contains name ''(R)'' \<or> contains (lower name) ''(Rear)'');
          clean_name = strip (replace (replace name ''(R)'' '''') ''(r)'' '''');
          equip_id = neid clean_name;
          mapped_location = mml location
      in \<lparr>eq_id = equip_id,
          eq_location = mapped_location,
          eq_slots = None,
          eq_isRearMounted = (if is_rear then Some is_rear else None),
          eq_linkedAmmo = None\<rparr>)"

definition build_equipment_list ::
  "(string \<Rightarrow> string) \<Rightarrow> (string \<Rightarrow> string) \<Rightarrow> raw_weapon list \<Rightarrow> serialized_equipment list" where
  "build_equipment_list neid mml weapons = map (build_equipment neid mml) weapons"

subsection \<open>Integers from text\<close>

text \<open>The value of a string of decimal digits.\<close>

definition digit_value :: "char \<Rightarrow> int" where
  "digit_value c = int (of_char c) - 48"

definition digits_value :: "string \<Rightarrow> int" where
  "digits_value ds = foldl (\<lambda>n c. 10 * n + digit_value c) 0 ds"

text \<open>The conversion of a run of decimal digits by \<open>int\<close>. CPython refuses a
  text of more than \<open>sys.int_max_str_digits\<close> digits with a \<open>ValueError\<close>. The
  limit is a setting of the interpreter and a parameter here: 4300 unless configured,
  0 when the limit is switched off or the interpreter has none; a limit that is not 0
  is above 640, and no shorter text is ever refused. \<open>None\<close> is the
  \<open>ValueError\<close>.\<close>

definition int_of_digits :: "nat \<Rightarrow> string \<Rightarrow> int option" where
  "int_of_digits max_str_digits ds =
     (if 640 < length ds \<and> 0 < max_str_digits \<and> max_str_digits < length ds then None
      else Some (digits_value ds))"

text \<open>\<open>int(s)\<close> on a string: surrounding whitespace is dropped, a sign may come
  first, and single underscores may stand between digits. \<open>None\<close> is the
  \<open>ValueError\<close>.\<close>

fun digits_ok :: "string \<Rightarrow> bool" where
  "digits_ok [] = False"
| "digits_ok [c] = is_digit c"
| "digits_ok (c # d # r) =
     (is_digit c \<and> (if d = CHR ''_'' then digits_ok r else digits_ok (d # r)))"

definition unsigned_int :: "nat \<Rightarrow> string \<Rightarrow> int option" where
  "unsigned_int max_str_digits s =
     (if digits_ok s then int_of_digits max_str_digits (filter (\<lambda>c. c \<noteq> CHR ''_'') s)
      else None)"

definition py_int :: "nat \<Rightarrow> string \<Rightarrow> int option" where
  "py_int max_str_digits s =
     (case strip s of
        [] \<Rightarrow> None
      | c # r \<Rightarrow>
          if c = CHR ''+'' then unsigned_int max_str_digits r
          else if c = CHR ''-'' then map_option uminus (unsigned_int max_str_digits r)
          else unsigned_int max_str_digits (c # r))"

text \<open>The exceptions that reach \<open>parse_file\<close>.\<close>

datatype error = OverflowError | ValueError

subsection \<open>Engine and heat sinks: \<open>_parse_engine\<close>, \<open>_parse_heat_sinks\<close>\<close>

text \<open>The dictionaries \<open>{'rating': ..., 'type': ...}\<close> and
  \<open>{'count': ..., 'type': ...}\<close>.\<close>

record raw_engine =
  raw_engine_rating :: int
  raw_engine_type :: string

record raw_heat_sinks =
  raw_hs_count :: int
  raw_hs_type :: string

text \<open>
  \<open>re.match(r'(\d+)\s*(.*?)(?:\(([^)]+)\))?$', value)\<close>, written as the search
  the backtracking matcher performs. Each function matches the rest of the pattern
  from one position and returns the groups of the first match found.

  \<open>at_end\<close> is \<open>$\<close>: the end of the string, or the position before a newline
  that ends the string.
\<close>

definition at_end :: "string \<Rightarrow> bool" where
  "at_end s = (s = [] \<or> s = [CHR 0x0A])"

text \<open>\<open>\(([^)]+)\)$\<close>: the group takes every character up to the first closing
  parenthesis; a shorter group cannot be followed by the parenthesis.\<close>

definition paren_group :: "string \<Rightarrow> string option" where
  "paren_group s =
     (case s of
        [] \<Rightarrow> None
      | c # r \<Rightarrow>
          if c = CHR ''(''
          then (let q = takeWhile (\<lambda>x. x \<noteq> CHR '')'') r;
                    rest = dropWhile (\<lambda>x. x \<noteq> CHR '')'') r
                in if q \<noteq> [] \<and> rest \<noteq> [] \<and> at_end (tl rest) then Some q else None)
          else None)"

text \<open>\<open>(?:\(([^)]+)\))?$\<close>: the optional group is tried first, then the empty
  alternative. The result is group 3.\<close>

definition tail_match :: "string \<Rightarrow> string option option" where
  "tail_match s =
     (case paren_group s of
        Some q \<Rightarrow> Some (Some q)
      | None \<Rightarrow> if at_end s then Some None else None)"

text \<open>\<open>(.*?)\<close> followed by the tail: the shortest group 2 first; the dot does not
  match a newline.\<close>

fun lazy_any :: "string \<Rightarrow> string \<Rightarrow> (string \<times> string option) option" where
  "lazy_any acc [] = map_option (Pair acc) (tail_match [])"
| "lazy_any acc (c # cs) =
     (case tail_match (c # cs) of
        Some g3 \<Rightarrow> Some (acc, g3)
      | None \<Rightarrow> if c = CHR 0x0A then None else lazy_any (acc @ [c]) cs)"

text \<open>\<open>\s*\<close> followed by the rest: the longest run of whitespace first.\<close>

fun ws_star :: "string \<Rightarrow> (string \<times> string option) option" where
  "ws_star [] = lazy_any [] []"
| "ws_star (c # cs) =
     (if is_space c
      then (case ws_star cs of Some r \<Rightarrow> Some r | None \<Rightarrow> lazy_any [] (c # cs))
      else lazy_any [] (c # cs))"

text \<open>\<open>(\d+)\<close> followed by the rest, after the digits \<open>acc\<close>: the longest run of
  digits first.\<close>

fun digits_more :: "string \<Rightarrow> string \<Rightarrow> (string \<times> string \<times> string option) option" where
  "digits_more acc [] = map_option (Pair acc) (ws_star [])"
| "digits_more acc (c # cs) =
     (if is_digit c
      then (case digits_more (acc @ [c]) cs of
              Some r \<Rightarrow> Some r
            | None \<Rightarrow> map_option (Pair acc) (ws_star (c # cs)))
      else map_option (Pair acc) (ws_star (c # cs)))"

text \<open>The match object: groups 1, 2 and 3, or \<open>None\<close>.\<close>

definition engine_match :: "string \<Rightarrow> (string \<times> string \<times> string option) option" where
  "engine_match v =
     (case v of [] \<Rightarrow> None | c # cs \<Rightarrow> if is_digit c then digits_more [c] cs else None)"

text \<open>\<open>_parse_engine\<close>. Nothing catches the \<open>ValueError\<close> of
  \<open>int(match.group(1))\<close>.\<close>

definition parse_engine :: "nat \<Rightarrow> string \<Rightarrow> error + raw_engine" where
  "parse_engine max_str_digits v =
     (case engine_match v of
        Some (g1, g2, g3) \<Rightarrow>
          (case int_of_digits max_str_digits g1 of
             None \<Rightarrow> Inl ValueError
           | Some rating \<Rightarrow>
               (let type_name = strip g2;
                    full_type = (case g3 of
                                   Some q \<Rightarrow> type_name @ ''('' @ q @ '')''
                                 | None \<Rightarrow> type_name)
                in Inr \<lparr>raw_engine_rating = rating, raw_engine_type = full_type\<rparr>))
      | None \<Rightarrow> Inr \<lparr>raw_engine_rating = 0, raw_engine_type = v\<rparr>)"

text \<open>\<open>re.match(r'(\d+)\s*(.*)', value)\<close>: nothing follows the greedy groups, so
  the first attempt matches: all leading digits, all whitespace after them, and the
  rest up to the first newline.\<close>

definition parse_heat_sinks :: "nat \<Rightarrow> string \<Rightarrow> error + raw_heat_sinks" where
  "parse_heat_sinks max_str_digits v =
     (let g1 = takeWhile is_digit v
      in if g1 \<noteq> []
         then (case int_of_digits max_str_digits g1 of
                 None \<Rightarrow> Inl ValueError
               | Some count \<Rightarrow>
                   (let g2 = takeWhile (\<lambda>c. c \<noteq> CHR 0x0A)
                               (dropWhile is_space (dropWhile is_digit v));
                        hs_type = (if g2 \<noteq> [] then strip g2 else ''Single'')
                    in Inr \<lparr>raw_hs_count = count, raw_hs_type = hs_type\<rparr>))
         else Inr \<lparr>raw_hs_count = 10, raw_hs_type = ''Single''\<rparr>)"

text \<open>The pattern of the engine value as the specification words it: an integer
  rating, optional whitespace, optional type words, an optional qualifier in
  parentheses, up to the end of the text (or the newline that ends it).\<close>

definition engine_pattern ::
  "string \<Rightarrow> string \<Rightarrow> string \<Rightarrow> string \<Rightarrow> string option \<Rightarrow> string \<Rightarrow> bool" where
  "engine_pattern v rating_digits ws type_words qualifier nl =
     (v = rating_digits @ ws @ type_words
            @ (case qualifier of Some q \<Rightarrow> ''('' @ q @ '')'' | None \<Rightarrow> [])
            @ nl
      \<and> rating_digits \<noteq> [] \<and> list_all is_digit rating_digits
      \<and> list_all is_space ws
      \<and> CHR 0x0A \<notin> set type_words
      \<and> (case qualifier of Some q \<Rightarrow> q \<noteq> [] \<and> CHR '')'' \<notin> set q | None \<Rightarrow> True)
      \<and> at_end nl)"

text \<open>The text of the optional qualifier in a match of the pattern, and what the
  pattern asks of it.\<close>

definition paren_text :: "string option \<Rightarrow> string" where
  "paren_text g3 = (case g3 of Some q \<Rightarrow> ''('' @ q @ '')'' | None \<Rightarrow> [])"

definition qualifier_ok :: "string option \<Rightarrow> bool" where
  "qualifier_ok g3 = (case g3 of Some q \<Rightarrow> q \<noteq> [] \<and> CHR '')'' \<notin> set q | None \<Rightarrow> True)"

subsection \<open>The raw record: the dictionary \<open>data\<close> of \<open>_parse_lines\<close>\<close>

text \<open>A key that the dictionary may lack is an optional field (the key
  \<open>'structure'\<close> is the field \<open>structure_name\<close>). The value under
  \<open>'era'\<close> is an integer, or the text that \<open>int\<close> refused.\<close>

datatype era_value = EraInt int | EraStr string

record raw_data =
  quirks :: "string list"
  weapons :: "raw_weapon list"
  criticals :: "(string \<times> string list) list"
  armor_allocation :: "(string \<times> int) list"
  fluff :: "(string \<times> string) list"
  system_manufacturers :: "(string \<times> string) list"
  chassis :: "string option"
  model :: "string option"
  mul_id :: "int option"
  config :: "string option"
  techbase :: "string option"
  era :: "era_value option"
  source :: "string option"
  rules_level :: "string option"
  role :: "string option"
  mass :: "int option"
  engine :: "raw_engine option"
  structure_name :: "string option"
  myomer :: "string option"
  heat_sinks :: "raw_heat_sinks option"
  walk_mp :: "int option"
  jump_mp :: "int option"
  armor_type :: "string option"
  manufacturer :: "string option"
  primary_factory :: "string option"

definition initial_data :: raw_data where
  "initial_data =
     \<lparr>quirks = [], weapons = [], criticals = [], armor_allocation = [], fluff = [],
      system_manufacturers = [], chassis = None, model = None, mul_id = None, config = None,
      techbase = None, era = None, source = None, rules_level = None, role = None,
      mass = None, engine = None, structure_name = None, myomer = None, heat_sinks = None,
      walk_mp = None, jump_mp = None, armor_type = None, manufacturer = None,
      primary_factory = None\<rparr>"

subsection \<open>Field interpreter: \<open>_parse_key_value\<close>\<close>

text \<open>
  Two built-in operations leave the model of 8-bit characters and integers and are
  parameters: \<open>int(float(value))\<close>, which yields an integer, raises
  \<open>ValueError\<close> (text that is no number, or a NaN) or raises \<open>OverflowError\<close> (an
  infinity), and \<open>str.upper()\<close>, whose result for three latin-1 letters lies outside
  latin-1. The third parameter is the interpreter's limit on the digits of an integer
  text. \<open>_parse_key_value\<close> catches the \<open>ValueError\<close> of its own conversions; it
  catches neither the \<open>OverflowError\<close> nor the \<open>ValueError\<close> raised inside
  \<open>_parse_engine\<close> and \<open>_parse_heat_sinks\<close>.
\<close>

datatype float_int = FloatInt int | FloatValueError | FloatOverflowError

record builtins =
  int_of_float :: "string \<Rightarrow> float_int"
  upper :: "string \<Rightarrow> string"
  int_max_str_digits :: nat

definition parse_key_value ::
  "builtins \<Rightarrow> string \<Rightarrow> string \<Rightarrow> raw_data \<Rightarrow> error + raw_data" where
  "parse_key_value b key val data =
     (if key = ''chassis'' then Inr (data\<lparr>chassis := Some val\<rparr>)
      else if key = ''model'' then Inr (data\<lparr>model := Some val\<rparr>)
      else if key = ''mul_id'' then
        Inr (case py_int (int_max_str_digits b) val of Some n \<Rightarrow> data\<lparr>mul_id := Some n\<rparr> | None \<Rightarrow> data)
      else if key = ''config'' then Inr (data\<lparr>config := Some val\<rparr>)
      else if key = ''techbase'' then Inr (data\<lparr>techbase := Some val\<rparr>)
      else if key = ''era'' then
        Inr (case py_int (int_max_str_digits b) val of
               Some n \<Rightarrow> data\<lparr>era := Some (EraInt n)\<rparr>
             | None \<Rightarrow> data\<lparr>era := Some (EraStr val)\<rparr>)
      else if key = ''source'' then Inr (data\<lparr>source := Some val\<rparr>)
      else if key = ''rules_level'' then Inr (data\<lparr>rules_level := Some val\<rparr>)
      else if key = ''role'' then Inr (data\<lparr>role := Some val\<rparr>)
      else if key = ''mass'' then
        (case int_of_float b val of
           FloatInt n \<Rightarrow> Inr (data\<lparr>mass := Some n\<rparr>)
         | FloatValueError \<Rightarrow> Inr (data\<lparr>mass := Some 0\<rparr>)
         | FloatOverflowError \<Rightarrow> Inl OverflowError)
      else if key = ''engine'' then
        (case parse_engine (int_max_str_digits b) val of
           Inl e \<Rightarrow> Inl e
         | Inr r \<Rightarrow> Inr (data\<lparr>engine := Some r\<rparr>))
      else if key = ''structure'' then Inr (data\<lparr>structure_name := Some val\<rparr>)
      else if key = ''myomer'' then Inr (data\<lparr>myomer := Some val\<rparr>)
      else if key = ''heat_sinks'' then
        (case parse_heat_sinks (int_max_str_digits b) val of
           Inl e \<Rightarrow> Inl e
         | Inr r \<Rightarrow> Inr (data\<lparr>heat_sinks := Some r\<rparr>))
      else if key = ''walk_mp'' then
        Inr (case py_int (int_max_str_digits b) val of
               Some n \<Rightarrow> data\<lparr>walk_mp := Some n\<rparr>
             | None \<Rightarrow> data\<lparr>walk_mp := Some 0\<rparr>)
      else if key = ''jump_mp'' then
        Inr (case py_int (int_max_str_digits b) val of
               Some n \<Rightarrow> data\<lparr>jump_mp := Some n\<rparr>
             | None \<Rightarrow> data\<lparr>jump_mp := Some 0\<rparr>)
      else if key = ''armor'' then Inr (data\<lparr>armor_type := Some val\<rparr>)
      else if endswith key ''_armor'' \<or> endswith key ''armor'' then
        (let loc_key = upper b (strip (replace (replace key ''_armor'' '''') ''armor'' ''''))
         in Inr (case py_int (int_max_str_digits b) val of
                   Some n \<Rightarrow>
                     data\<lparr>armor_allocation := AList.update loc_key n (armor_allocation data)\<rparr>
                 | None \<Rightarrow> data))
      else if key = ''quirk'' then Inr (data\<lparr>quirks := quirks data @ [val]\<rparr>)
      else if key = ''manufacturer'' then Inr (data\<lparr>manufacturer := Some val\<rparr>)
      else if key = ''primaryfactory'' then Inr (data\<lparr>primary_factory := Some val\<rparr>)
      else if key = ''systemmanufacturer'' then
        (if contains val '':''
         then (let (sys_type, sys_name) = split1 CHR '':'' val
               in Inr (data\<lparr>system_manufacturers :=
                        AList.update (strip sys_type) (strip sys_name)
                          (system_manufacturers data)\<rparr>))
         else Inr data)
      else Inr data)"

subsection \<open>Line scanner: \<open>_parse_lines\<close>\<close>

text \<open>
  The local variables of \<open>_parse_lines\<close>. The assignment
  \<open>data['criticals'][current_section] = current_section_items\<close> stores the list
  object itself, so a later \<open>append\<close> to it also changes the stored entry;
  \<open>items_stored\<close> says that the list bound to \<open>current_section_items\<close> is the
  object stored under \<open>current_section\<close>. It becomes false when the variable is
  bound to a new empty list.
\<close>

record parser_state =
  data :: raw_data
  current_section :: "string option"
  current_section_items :: "string list"
  items_stored :: bool
  in_weapons_section :: bool
  in_fluff :: bool
  current_fluff_field :: "string option"
  fluff_buffer :: "string list"

definition initial_state :: parser_state where
  "initial_state =
     \<lparr>data = initial_data, current_section = None, current_section_items = [],
      items_stored = False, in_weapons_section = False, in_fluff = False,
      current_fluff_field = None, fluff_buffer = []\<rparr>"

definition MECH_LOCATIONS :: "string list" where
  "MECH_LOCATIONS =
     [''Head'', ''Center Torso'', ''Left Torso'', ''Right Torso'',
      ''Left Arm'', ''Right Arm'', ''Left Leg'', ''Right Leg'']"

definition fluff_fields :: "string list" where
  "fluff_fields =
     [''overview'', ''capabilities'', ''deployment'', ''history'',
      ''variants'', ''notable_pilots'', ''notes'']"

text \<open>The truth value of \<open>current_section\<close>: neither \<open>None\<close> nor empty.\<close>

definition section_open :: "parser_state \<Rightarrow> bool" where
  "section_open st = (case current_section st of None \<Rightarrow> False | Some s \<Rightarrow> s \<noteq> [])"

text \<open>\<open>if current_section and current_section_items:
  data['criticals'][current_section] = current_section_items\<close>\<close>

definition store_section :: "parser_state \<Rightarrow> parser_state" where
  "store_section st =
     (case current_section st of
        None \<Rightarrow> st
      | Some s \<Rightarrow>
          if s \<noteq> [] \<and> current_section_items st \<noteq> []
          then st\<lparr>data := (data st)\<lparr>criticals :=
                       AList.update s (current_section_items st) (criticals (data st))\<rparr>,
                  items_stored := True\<rparr>
          else st)"

text \<open>\<open>if in_fluff and fluff_buffer:
  data['fluff'][current_fluff_field] = '\n'.join(fluff_buffer).strip()\<close>.
  Whenever \<open>in_fluff\<close> holds the field is set (lemma \<open>parse_line_fluff_field\<close>).\<close>

definition store_fluff :: "parser_state \<Rightarrow> raw_data" where
  "store_fluff st =
     (if in_fluff st \<and> fluff_buffer st \<noteq> []
      then (case current_fluff_field st of
              Some field \<Rightarrow>
                (data st)\<lparr>fluff := AList.update field (strip (join CHR 0x0A (fluff_buffer st)))
                                     (fluff (data st))\<rparr>
            | None \<Rightarrow> data st)
      else data st)"

text \<open>The branch for a key:value line.\<close>

definition key_value_line :: "builtins \<Rightarrow> parser_state \<Rightarrow> string \<Rightarrow> error + parser_state" where
  "key_value_line b st line_content =
     (let (k, v) = split1 CHR '':'' line_content;
          key = replace (lower (strip k)) '' '' ''_'';
          val = strip v
      in case parse_key_value b key val (data st) of
           Inl e \<Rightarrow> Inl e
         | Inr d \<Rightarrow> Inr (st\<lparr>data := d\<rparr>))"

text \<open>The branch for a line of the weapons section.\<close>

definition weapon_line :: "parser_state \<Rightarrow> string \<Rightarrow> parser_state" where
  "weapon_line st line_content =
     (if contains line_content '',''
      then (let (p0, p1) = split1 CHR '','' line_content;
                weapon = \<lparr>weapon_name = strip p0, weapon_location = strip p1\<rparr>
            in st\<lparr>data := (data st)\<lparr>weapons := weapons (data st) @ [weapon]\<rparr>\<rparr>)
      else st)"

text \<open>\<open>current_section_items.append(line_content)\<close>\<close>

definition append_item :: "parser_state \<Rightarrow> string \<Rightarrow> parser_state" where
  "append_item st line_content =
     (let items = current_section_items st @ [line_content]
      in case current_section st of
           None \<Rightarrow> st
         | Some s \<Rightarrow>
             if items_stored st
             then st\<lparr>current_section_items := items,
                     data := (data st)\<lparr>criticals := AList.update s items (criticals (data st))\<rparr>\<rparr>
             else st\<lparr>current_section_items := items\<rparr>)"

text \<open>The section-header branch, taken by every line that ends with a colon and has
  no other colon.\<close>

definition header_line :: "parser_state \<Rightarrow> string \<Rightarrow> parser_state" where
  "header_line st line_content =
     (let st1 = store_section st;
          section_name = butlast line_content
      in if section_name \<in> set MECH_LOCATIONS \<or> section_name \<in> set [''Head'', ''Center Torso'']
         then st1\<lparr>current_section := Some section_name, current_section_items := [],
                  items_stored := False, in_weapons_section := False\<rparr>
         else st1)"

text \<open>The body of the loop over the lines.\<close>

definition parse_line :: "builtins \<Rightarrow> parser_state \<Rightarrow> string \<Rightarrow> error + parser_state" where
  "parse_line b st line =
     (let line_content = strip line
      in if line_content = [] \<or> startswith line_content ''#''
         then (if in_fluff st \<and> fluff_buffer st \<noteq> []
               then Inr (st\<lparr>data := store_fluff st, fluff_buffer := [], in_fluff := False,
                            current_fluff_field := None\<rparr>)
               else Inr st)
         else case find (\<lambda>field. startswith (lower line_content) (field @ '':'')) fluff_fields of
           Some field \<Rightarrow>
             Inr (st\<lparr>data := store_fluff st, current_fluff_field := Some field,
                     fluff_buffer := [strip (drop (length field + 1) line_content)],
                     in_fluff := True\<rparr>)
         | None \<Rightarrow>
             if in_fluff st then Inr (st\<lparr>fluff_buffer := fluff_buffer st @ [line_content]\<rparr>)
             else if endswith line_content '':'' \<and> \<not> contains (butlast line_content) '':''
             then Inr (header_line st line_content)
             else if startswith (lower line_content) ''weapons:''
             then Inr ((store_section st)\<lparr>in_weapons_section := True, current_section := None,
                         current_section_items := [], items_stored := False\<rparr>)
             else if in_weapons_section st then Inr (weapon_line st line_content)
             else if contains line_content '':'' then key_value_line b st line_content
             else if section_open st then Inr (append_item st line_content)
             else Inr st)"

fun parse_loop :: "builtins \<Rightarrow> string list \<Rightarrow> parser_state \<Rightarrow> error + parser_state" where
  "parse_loop b [] st = Inr st"
| "parse_loop b (line # lines) st =
     (case parse_line b st line of
        Inl e \<Rightarrow> Inl e
      | Inr st' \<Rightarrow> parse_loop b lines st')"

text \<open>After the loop: save the last section, save the last fluff.\<close>

definition finish :: "parser_state \<Rightarrow> raw_data" where
  "finish st = store_fluff (store_section st)"

text \<open>The raw record that \<open>_parse_lines\<close> hands to \<open>_build_unit\<close>.\<close>

definition parse_raw :: "builtins \<Rightarrow> string list \<Rightarrow> error + raw_data" where
  "parse_raw b lines =
     (case parse_loop b lines initial_state of
        Inl e \<Rightarrow> Inl e
      | Inr st \<Rightarrow> Inr (finish st))"

subsection \<open>The output document and the assembler: \<open>_build_unit\<close>\<close>

text \<open>The dataclasses of the output. A field of a dataclass keeps its name behind a
  prefix for its class: \<open>e_\<close> engine, \<open>g_\<close> gyro, \<open>s_\<close> structure, \<open>a_\<close>
  armor, \<open>h_\<close> heat sinks, \<open>m_\<close> movement, \<open>f_\<close> fluff, \<open>u_\<close> unit.\<close>

record serialized_engine =
  e_type :: string
  e_rating :: int

record serialized_gyro =
  g_type :: string

record serialized_structure =
  s_type :: string

record serialized_armor =
  a_type :: string
  a_allocation :: "(string \<times> armor_value) list"

record serialized_heat_sinks =
  h_type :: string
  h_count :: int

record serialized_movement =
  m_walk :: int
  m_jump :: int
  m_jumpJetType :: "string option"
  m_enhancements :: "string list option"

record serialized_fluff =
  f_overview :: "string option"
  f_capabilities :: "string option"
  f_history :: "string option"
  f_deployment :: "string option"
  f_variants :: "string option"
  f_notableUnits :: "string option"
  f_manufacturer :: "string option"
  f_primaryFactory :: "string option"
  f_systemManufacturer :: "(string \<times> string) list option"

record serialized_unit =
  u_id :: string
  u_chassis :: string
  u_model :: string
  u_unitType :: string
  u_configuration :: string
  u_techBase :: string
  u_rulesLevel :: string
  u_era :: string
  u_year :: int
  u_tonnage :: int
  u_engine :: serialized_engine
  u_gyro :: serialized_gyro
  u_cockpit :: string
  u_structure :: serialized_structure
  u_armor :: serialized_armor
  u_heatSinks :: serialized_heat_sinks
  u_movement :: serialized_movement
  u_equipment :: "serialized_equipment list"
  u_criticalSlots :: "(string \<times> string option list) list"
  u_variant :: "string option"
  u_quirks :: "string list option"
  u_fluff :: "serialized_fluff option"
  u_mulId :: "int option"
  u_role :: "string option"
  u_source :: "string option"

text \<open>The functions imported from \<open>enum_mappings\<close>, which is not part of the
  sources: parameters of the assembler.\<close>

record collaborators =
  map_tech_base :: "string \<Rightarrow> string"
  map_rules_level :: "string \<Rightarrow> string"
  map_engine_type :: "string \<Rightarrow> string"
  map_structure_type :: "string \<Rightarrow> string"
  map_armor_type :: "string \<Rightarrow> string"
  map_heat_sink_type :: "string \<Rightarrow> string"
  map_mech_location :: "string \<Rightarrow> string"
  map_mech_config :: "string \<Rightarrow> string"
  map_unit_type :: "string \<Rightarrow> string"
  map_year_to_era :: "int \<Rightarrow> string"
  generate_id_from_name :: "string \<Rightarrow> string \<Rightarrow> string"
  normalize_equipment_id :: "string \<Rightarrow> string"

text \<open>\<open>d.get(key, default)\<close> on an optional field.\<close>

definition get_or :: "'a option \<Rightarrow> 'a \<Rightarrow> 'a" where
  "get_or field dflt = (case field of Some v \<Rightarrow> v | None \<Rightarrow> dflt)"

text \<open>The fluff block, built when \<open>fluff_data\<close> is not empty.\<close>

definition build_fluff :: "raw_data \<Rightarrow> serialized_fluff option" where
  "build_fluff d =
     (let fluff_data = fluff d
      in if fluff_data \<noteq> []
         then Some \<lparr>f_overview = map_of fluff_data ''overview'',
                    f_capabilities = map_of fluff_data ''capabilities'',
                    f_history = map_of fluff_data ''history'',
                    f_deployment = map_of fluff_data ''deployment'',
                    f_variants = None,
                    f_notableUnits = None,
                    f_manufacturer = manufacturer d,
                    f_primaryFactory = primary_factory d,
                    f_systemManufacturer =
                      (if system_manufacturers d \<noteq> [] then Some (system_manufacturers d)
                       else None)\<rparr>
         else None)"

definition build_unit ::
  "builtins \<Rightarrow> collaborators \<Rightarrow> raw_data \<Rightarrow> string \<Rightarrow> serialized_unit option" where
  "build_unit b c d filepath =
     (let chassis_v = get_or (chassis d) ''Unknown'';
          model_v = get_or (model d) ''Unknown''
      in if chassis_v = ''Unknown'' then None
         else
          (let unit_id = generate_id_from_name c chassis_v model_v;
               year = (case era d of
                         None \<Rightarrow> 3025
                       | Some (EraInt n) \<Rightarrow> n
                       | Some (EraStr s) \<Rightarrow>
                           (case py_int (int_max_str_digits b) s of
                              Some n \<Rightarrow> n
                            | None \<Rightarrow> 3025));
               era_v = map_year_to_era c year;
               engine_data = get_or (engine d) \<lparr>raw_engine_rating = 0, raw_engine_type = ''Fusion''\<rparr>;
               engine_v = \<lparr>e_type = map_engine_type c (raw_engine_type engine_data),
                           e_rating = raw_engine_rating engine_data\<rparr>;
               gyro = \<lparr>g_type = ''STANDARD''\<rparr>;
               cockpit = ''STANDARD'';
               structure_str = get_or (structure_name d) ''Standard'';
               structure_v = \<lparr>s_type = map_structure_type c structure_str\<rparr>;
               hs_data = get_or (heat_sinks d) \<lparr>raw_hs_count = 10, raw_hs_type = ''Single''\<rparr>;
               heat_sinks_v = \<lparr>h_type = map_heat_sink_type c (raw_hs_type hs_data),
                               h_count = raw_hs_count hs_data\<rparr>;
               armor_type_v = map_armor_type c (get_or (armor_type d) ''Standard'');
               armor_allocation_v = build_armor_allocation (armor_allocation d);
               armor = \<lparr>a_type = armor_type_v, a_allocation = armor_allocation_v\<rparr>;
               movement = \<lparr>m_walk = get_or (walk_mp d) 0, m_jump = get_or (jump_mp d) 0,
                           m_jumpJetType = None, m_enhancements = None\<rparr>;
               equipment = build_equipment_list (normalize_equipment_id c) (map_mech_location c)
                             (weapons d);
               critical_slots = build_critical_slots (map_mech_location c) (criticals d);
               fluff_v = build_fluff d
           in Some \<lparr>u_id = unit_id,
                     u_chassis = chassis_v,
                     u_model = model_v,
                     u_unitType = map_unit_type c (get_or (config d) ''Biped''),
                     u_configuration = map_mech_config c (get_or (config d) ''Biped''),
                     u_techBase = map_tech_base c (get_or (techbase d) ''Inner Sphere''),
                     u_rulesLevel = map_rules_level c (get_or (rules_level d) ''1''),
                     u_era = era_v,
                     u_year = year,
                     u_tonnage = get_or (mass d) 0,
                     u_engine = engine_v,
                     u_gyro = gyro,
                     u_cockpit = cockpit,
                     u_structure = structure_v,
                     u_armor = armor,
                     u_heatSinks = heat_sinks_v,
                     u_movement = movement,
                     u_equipment = equipment,
                     u_criticalSlots = critical_slots,
                     u_variant = None,
                     u_quirks = (if quirks d \<noteq> [] then Some (quirks d) else None),
                     u_fluff = fluff_v,
                     u_mulId = mul_id d,
                     u_role = role d,
                     u_source = source d\<rparr>))"

text \<open>\<open>_parse_lines\<close>, and \<open>parse_file\<close> on the lines read from the file: an
  exception becomes \<open>None\<close>.\<close>

definition parse_lines ::
  "builtins \<Rightarrow> collaborators \<Rightarrow> string list \<Rightarrow> string \<Rightarrow> error + serialized_unit option" where
  "parse_lines b c lines filepath =
     (case parse_raw b lines of
        Inl e \<Rightarrow> Inl e
      | Inr d \<Rightarrow> Inr (build_unit b c d filepath))"

definition parse_file ::
  "builtins \<Rightarrow> collaborators \<Rightarrow> string list \<Rightarrow> string \<Rightarrow> serialized_unit option" where
  "parse_file b c lines filepath =
     (case parse_lines b c lines filepath of
        Inl e \<Rightarrow> None
      | Inr r \<Rightarrow> r)"

text \<open>Modelled from the spec: stand-ins, at concrete inputs, for the functions of
  \<open>enum_mappings\<close>, which is not part of the sources; the spec calls them pure
  lookup functions from free text to canonical labels
  and does not give their tables. Here each vocabulary mapper returns its argument,
  the identifier is chassis and model joined by a hyphen, the era label is empty, and
  the location mapper is \<open>canon_location\<close>. No theorem depends on these choices
  except through the concrete instances that name them.\<close>

definition sample_collaborators :: collaborators where
  "sample_collaborators =
     \<lparr>map_tech_base = (\<lambda>s. s), map_rules_level = (\<lambda>s. s), map_engine_type = (\<lambda>s. s),
      map_structure_type = (\<lambda>s. s), map_armor_type = (\<lambda>s. s),
      map_heat_sink_type = (\<lambda>s. s), map_mech_location = canon_location,
      map_mech_config = (\<lambda>s. s), map_unit_type = (\<lambda>s. s),
      map_year_to_era = (\<lambda>y. []),
      generate_id_from_name = (\<lambda>ch mo. ch @ ''-'' @ mo),
      normalize_equipment_id = (\<lambda>s. s)\<rparr>"

text \<open>The built-in operations at concrete inputs: the digit limit is 4300, the
  value of CPython 3.11 unless configured; \<open>upper\<close> maps a-z to A-Z, which is
  \<open>str.upper()\<close> on ASCII text; \<open>int_of_float\<close> takes no text for a number. The
  concrete instances below have ASCII lines only and no \<open>mass\<close> line.\<close>

definition sample_builtins :: builtins where
  "sample_builtins =
     \<lparr>int_of_float = (\<lambda>s. FloatValueError),
      upper = map (\<lambda>c. if 97 \<le> (of_char c :: nat) \<and> (of_char c :: nat) \<le> 122
                          then char_of ((of_char c :: nat) - 32) else c),
      int_max_str_digits = 4300\<rparr>"

section \<open>Properties\<close>

subsection \<open>Critical slot table\<close>

lemma max_slots_of_eq: "max_slots_of loc = (if loc \<in> six_slot_locations then 6 else 12)"
  unfolding six_slot_locations_def max_slots_of_def slot_counts_def map_of.simps fst_conv snd_conv
  by (simp only: insert_iff empty_iff split: if_split option.split) auto

lemma length_normalize_slots: "length (normalize_slots n xs) = n"
  by (simp add: normalize_slots_def)

lemma normalize_slots_long:
  "n < length xs \<Longrightarrow> normalize_slots n xs = take n xs"
  by (simp add: normalize_slots_def)

lemma normalize_slots_short:
  "length xs \<le> n \<Longrightarrow> normalize_slots n xs = xs @ replicate (n - length xs) None"
  by (simp add: normalize_slots_def)

lemma critical_slots_loop_entry:
  assumes "map_of (critical_slots_loop mml crits slots) loc = Some sl"
  shows "map_of slots loc = Some sl \<or>
         (\<exists>(raw, items) \<in> set crits. mml raw = loc \<and>
             sl = normalize_slots (max_slots_of loc) (map convert_item items))"
  using assms
proof (induction crits arbitrary: slots)
  case Nil
  then show ?case by simp
next
  case (Cons p rest)
  obtain location items where p: "p = (location, items)" by (cases p)
  let ?slots' = "AList.update (mml location)
      (normalize_slots (max_slots_of (mml location)) (map convert_item items)) slots"
  from Cons.prems p
  have "map_of (critical_slots_loop mml rest ?slots') loc = Some sl"
    by (simp add: Let_def)
  from Cons.IH [OF this] show ?case
  proof
    assume "map_of ?slots' loc = Some sl"
    then show ?thesis
      using p by (auto simp: update_conv' split: if_splits)
  next
    assume "\<exists>(raw, items) \<in> set rest. mml raw = loc \<and>
             sl = normalize_slots (max_slots_of loc) (map convert_item items)"
    then show ?thesis by auto
  qed
qed

text \<open>
  Claim C1. Every sequence in the table that \<open>_build_critical_slots\<close> emits has
  exactly the capacity of its location: 6 for HEAD and the six leg locations, 12 for
  every other location name, recognised or not. The sequence comes from the content
  list of a raw location that maps to it: when that list is longer than the capacity
  its first capacity entries are kept in order, otherwise it is followed by None
  entries up to the capacity.
\<close>

theorem build_critical_slots_capacity:
  assumes "map_of (build_critical_slots mml crits) loc = Some sl"
  shows "length sl = max_slots_of loc
       \<and> max_slots_of loc = (if loc \<in> six_slot_locations then 6 else 12)
       \<and> (\<exists>(raw, items) \<in> set crits. mml raw = loc
            \<and> (max_slots_of loc < length items \<longrightarrow>
                  sl = take (max_slots_of loc) (map convert_item items))
            \<and> (length items \<le> max_slots_of loc \<longrightarrow>
                  sl = map convert_item items
                       @ replicate (max_slots_of loc - length items) None))"
proof -
  from critical_slots_loop_entry [OF assms [unfolded build_critical_slots_def]]
  obtain raw items where e: "(raw, items) \<in> set crits" "mml raw = loc"
      "sl = normalize_slots (max_slots_of loc) (map convert_item items)"
    by auto
  have "length sl = max_slots_of loc"
    using e(3) by (simp add: length_normalize_slots)
  moreover have "max_slots_of loc = (if loc \<in> six_slot_locations then 6 else 12)"
    by (rule max_slots_of_eq)
  moreover have "max_slots_of loc < length items \<longrightarrow>
      sl = take (max_slots_of loc) (map convert_item items)"
    using e(3) by (simp add: normalize_slots_long)
  moreover have "length items \<le> max_slots_of loc \<longrightarrow>
      sl = map convert_item items @ replicate (max_slots_of loc - length items) None"
    using e(3) by (simp add: normalize_slots_short)
  ultimately show ?thesis using e(1,2) by blast
qed

lemma head_eight_example:
  "map_of (build_critical_slots canon_location
      [(''Head'', [''Life Support'', ''Sensors'', ''Cockpit'', ''-Empty-'', ''Sensors'',
                   ''Life Support'', ''-Empty-'', ''-Empty-''])]) ''HEAD''
   = Some [Some ''Life Support'', Some ''Sensors'', Some ''Cockpit'', None, Some ''Sensors'',
           Some ''Life Support'']"
  by (simp add: build_critical_slots_def canon_location_def max_slots_of_def slot_counts_def
      normalize_slots_def convert_item_def)

lemma arm_three_example:
  "map_of (build_critical_slots canon_location
      [(''Left Arm'', [''Shoulder'', ''Upper Arm Actuator'', ''Medium Laser''])]) ''LEFT_ARM''
   = Some ([Some ''Shoulder'', Some ''Upper Arm Actuator'', Some ''Medium Laser'']
           @ replicate 9 None)"
  by (simp add: build_critical_slots_def canon_location_def max_slots_of_def slot_counts_def
      normalize_slots_def convert_item_def)

theorem build_critical_slots_capacity_witness:
  "map_of (build_critical_slots canon_location
      [(''Head'', [''Life Support'', ''Sensors'', ''Cockpit'', ''-Empty-'', ''Sensors'',
                   ''Life Support'', ''-Empty-'', ''-Empty-''])]) ''HEAD''
   = Some [Some ''Life Support'', Some ''Sensors'', Some ''Cockpit'', None, Some ''Sensors'',
           Some ''Life Support'']
   \<and> length [Some ''Life Support'', Some ''Sensors'', Some ''Cockpit'', None, Some ''Sensors'',
           Some ''Life Support''] = max_slots_of ''HEAD''
   \<and> max_slots_of ''HEAD'' = 6"
proof -
  have h: "map_of (build_critical_slots canon_location
      [(''Head'', [''Life Support'', ''Sensors'', ''Cockpit'', ''-Empty-'', ''Sensors'',
                   ''Life Support'', ''-Empty-'', ''-Empty-''])]) ''HEAD''
   = Some [Some ''Life Support'', Some ''Sensors'', Some ''Cockpit'', None, Some ''Sensors'',
           Some ''Life Support'']"
    by (rule head_eight_example)
  have s: "''HEAD'' \<in> six_slot_locations" by (simp add: six_slot_locations_def)
  show ?thesis using h build_critical_slots_capacity [OF h] s by simp
qed

subsection \<open>Armor allocation\<close>

lemma first_pass_append:
  "first_pass (xs @ ys) a = first_pass ys (first_pass xs a)"
  by (induction xs a rule: first_pass.induct) simp_all

lemma second_pass_append:
  "second_pass (xs @ ys) a = second_pass ys (second_pass xs a)"
  by (induction xs a rule: second_pass.induct)
     (simp_all add: Let_def split: option.splits armor_value.splits)

lemma first_pass_other:
  "\<forall>(k, v) \<in> set ys. mapped_loc k \<noteq> loc \<Longrightarrow> map_of (first_pass ys a) loc = map_of a loc"
proof (induction ys arbitrary: a)
  case Nil
  then show ?case by simp
next
  case (Cons p ys)
  obtain k v where p: "p = (k, v)" by (cases p)
  from Cons.prems p have ne: "mapped_loc k \<noteq> loc" and rest: "\<forall>(k, v) \<in> set ys. mapped_loc k \<noteq> loc"
    by auto
  show ?case using ne Cons.IH [OF rest] by (simp add: p update_conv')
qed

lemma first_pass_None:
  "map_of (first_pass raw a) loc = None \<longleftrightarrow>
     map_of a loc = None \<and>
     (\<forall>(k, v) \<in> set raw. \<not> contains (mapped_loc k) ''REAR'' \<longrightarrow> mapped_loc k \<noteq> loc)"
proof (induction raw arbitrary: a)
  case Nil
  then show ?case by simp
next
  case (Cons p raw)
  obtain k v where p: "p = (k, v)" by (cases p)
  show ?case unfolding p by (auto simp add: Cons.IH update_conv')
qed

lemma second_pass_None:
  "map_of (second_pass raw a) loc = None \<longleftrightarrow> map_of a loc = None"
proof (induction raw arbitrary: a)
  case Nil
  then show ?case by simp
next
  case (Cons p raw)
  obtain k v where p: "p = (k, v)" by (cases p)
  show ?case unfolding p
    by (simp add: Cons.IH update_conv' Let_def split: option.splits armor_value.splits)
qed

lemma second_pass_other:
  "\<forall>(k, v) \<in> set raw. contains (mapped_loc k) ''REAR'' \<longrightarrow>
       replace (mapped_loc k) ''_REAR'' '''' \<noteq> loc
   \<Longrightarrow> map_of (second_pass raw a) loc = map_of a loc"
proof (induction raw arbitrary: a)
  case Nil
  then show ?case by simp
next
  case (Cons p raw)
  obtain k v where p: "p = (k, v)" by (cases p)
  from Cons.prems p have
    ne: "contains (mapped_loc k) ''REAR'' \<longrightarrow> replace (mapped_loc k) ''_REAR'' '''' \<noteq> loc"
    and rest: "\<forall>(k, v) \<in> set raw. contains (mapped_loc k) ''REAR'' \<longrightarrow>
       replace (mapped_loc k) ''_REAR'' '''' \<noteq> loc"
    by auto
  show ?case unfolding p using ne
    by (auto simp add: Cons.IH [OF rest] update_conv' Let_def split: option.splits armor_value.splits)
qed

lemma second_pass_composite:
  "map_of a loc = Some (FrontRear f r) \<Longrightarrow> map_of (second_pass raw a) loc = Some (FrontRear f r)"
proof (induction raw arbitrary: a)
  case Nil
  then show ?case by simp
next
  case (Cons p raw)
  obtain k v where p: "p = (k, v)" by (cases p)
  show ?case
  proof (cases "contains (mapped_loc k) ''REAR''")
    case False
    then show ?thesis unfolding p using Cons.IH [OF Cons.prems] by simp
  next
    case True
    let ?fl = "replace (mapped_loc k) ''_REAR'' ''''"
    show ?thesis
    proof (cases "map_of a ?fl")
      case None
      then show ?thesis unfolding p using True Cons.IH [OF Cons.prems] by (simp add: Let_def)
    next
      case (Some x)
      show ?thesis
      proof (cases x)
        case (Scalar fv)
        with Some Cons.prems have ne: "?fl \<noteq> loc" by auto
        have "map_of (AList.update ?fl (FrontRear fv v) a) loc = Some (FrontRear f r)"
          using ne Cons.prems by (simp add: update_conv')
        from Cons.IH [OF this] show ?thesis
          unfolding p using True Some Scalar by (simp add: Let_def)
      next
        case (FrontRear x1 x2)
        then show ?thesis unfolding p using True Some Cons.IH [OF Cons.prems]
          by (simp add: Let_def)
      qed
    qed
  qed
qed

lemma second_pass_scalar:
  "map_of a loc = Some (Scalar f) \<Longrightarrow>
   map_of (second_pass raw a) loc = Some (Scalar f) \<or>
   (\<exists>(k, r) \<in> set raw. contains (mapped_loc k) ''REAR'' \<and>
        replace (mapped_loc k) ''_REAR'' '''' = loc \<and>
        map_of (second_pass raw a) loc = Some (FrontRear f r))"
proof (induction raw arbitrary: a)
  case Nil
  then show ?case by simp
next
  case (Cons p raw)
  obtain k v where p: "p = (k, v)" by (cases p)
  show ?case
  proof (cases "contains (mapped_loc k) ''REAR'' \<and> replace (mapped_loc k) ''_REAR'' '''' = loc")
    case True
    then have "second_pass (p # raw) a = second_pass raw (AList.update loc (FrontRear f v) a)"
      unfolding p using Cons.prems by (simp add: Let_def)
    moreover have "map_of (second_pass raw (AList.update loc (FrontRear f v) a)) loc
        = Some (FrontRear f v)"
      by (rule second_pass_composite) (simp add: update_conv')
    ultimately show ?thesis using True p by auto
  next
    case False
    have "\<exists>a'. second_pass (p # raw) a = second_pass raw a' \<and> map_of a' loc = Some (Scalar f)"
    proof (cases "contains (mapped_loc k) ''REAR''")
      case nr: False
      then show ?thesis unfolding p using Cons.prems by auto
    next
      case r: True
      with False have ne: "replace (mapped_loc k) ''_REAR'' '''' \<noteq> loc" by simp
      show ?thesis unfolding p using r ne Cons.prems
        by (auto simp add: Let_def update_conv' split: option.splits armor_value.splits)
    qed
    then obtain a' where a': "second_pass (p # raw) a = second_pass raw a'"
       "map_of a' loc = Some (Scalar f)" by blast
    from Cons.IH [OF a'(2)] show ?thesis unfolding a'(1) by auto
  qed
qed

lemma first_pass_Some:
  "map_of (first_pass raw a) loc = Some x \<Longrightarrow>
   map_of a loc = Some x \<or> (\<exists>(k, v) \<in> set raw. mapped_loc k = loc \<and> x = Scalar v)"
proof (induction raw arbitrary: a)
  case Nil
  then show ?case by simp
next
  case (Cons p raw)
  obtain k v where p: "p = (k, v)" by (cases p)
  show ?case
  proof (cases "contains (mapped_loc k) ''REAR''")
    case True
    then show ?thesis using Cons.IH [of a] Cons.prems unfolding p by auto
  next
    case False
    then have "map_of (first_pass raw (AList.update (mapped_loc k) (Scalar v) a)) loc = Some x"
      using Cons.prems unfolding p by simp
    from Cons.IH [OF this] show ?thesis unfolding p
      by (auto simp: update_conv' split: if_splits)
  qed
qed

lemma second_pass_scalar_rev:
  "map_of (second_pass raw a) loc = Some (Scalar f) \<Longrightarrow> map_of a loc = Some (Scalar f)"
proof (induction raw arbitrary: a)
  case Nil
  then show ?case by simp
next
  case (Cons p raw)
  obtain k v where p: "p = (k, v)" by (cases p)
  let ?fl = "replace (mapped_loc k) ''_REAR'' ''''"
  show ?case
  proof (cases "contains (mapped_loc k) ''REAR''")
    case False
    then show ?thesis using Cons.prems Cons.IH [of a] unfolding p by simp
  next
    case True
    show ?thesis
    proof (cases "map_of a ?fl")
      case None
      then show ?thesis using True Cons.prems Cons.IH [of a] unfolding p by (simp add: Let_def)
    next
      case (Some x)
      show ?thesis
      proof (cases x)
        case (Scalar fv)
        then have "map_of (second_pass raw (AList.update ?fl (FrontRear fv v) a)) loc
            = Some (Scalar f)"
          using True Some Cons.prems unfolding p by (simp add: Let_def)
        from Cons.IH [OF this] show ?thesis
          by (simp add: update_conv' split: if_splits)
      next
        case (FrontRear x1 x2)
        then show ?thesis using True Some Cons.prems Cons.IH [of a] unfolding p
          by (simp add: Let_def)
      qed
    qed
  qed
qed

lemma second_pass_rear_entry:
  assumes "contains (mapped_loc key) ''REAR''"
    and "map_of (second_pass before a) (replace (mapped_loc key) ''_REAR'' '''') = Some (Scalar f)"
  shows "map_of (second_pass (before @ (key, val) # after) a)
           (replace (mapped_loc key) ''_REAR'' '''') = Some (FrontRear f val)"
proof -
  let ?fl = "replace (mapped_loc key) ''_REAR'' ''''"
  let ?s = "second_pass before a"
  have "second_pass (before @ (key, val) # after) a =
        second_pass after (AList.update ?fl (FrontRear f val) ?s)"
    using assms by (simp add: second_pass_append Let_def)
  moreover have "map_of (second_pass after (AList.update ?fl (FrontRear f val) ?s)) ?fl
      = Some (FrontRear f val)"
    by (rule second_pass_composite) (simp add: update_conv')
  ultimately show ?thesis by simp
qed

lemma first_pass_last_entry:
  assumes "\<not> contains (mapped_loc key) ''REAR''"
    and "\<forall>(k, v) \<in> set after. mapped_loc k \<noteq> mapped_loc key"
  shows "map_of (first_pass (before @ (key, val) # after) a) (mapped_loc key) = Some (Scalar val)"
proof -
  have "first_pass (before @ (key, val) # after) a =
      first_pass after (AList.update (mapped_loc key) (Scalar val) (first_pass before a))"
    using assms(1) by (simp add: first_pass_append)
  then show ?thesis
    using first_pass_other [OF assms(2)] by (simp add: update_conv')
qed

text \<open>
  What the builder does with an entry of a raw armor allocation, by the test of the
  code: a mapped name that contains REAR is a rear entry. When the mapped name does not
  contain REAR, the first pass records a scalar under the mapped name (the
  entry's own value when no later entry maps to the same name), and the output holds
  that scalar, or the composite made of it and a rear value; it holds the scalar when no
  rear entry refers to the location. When the mapped name contains REAR,
  the output has no entry under that name; if the front location holds a scalar
  when the entry is processed (the scalar of the first pass, no earlier rear entry
  having been merged into it), the output holds the composite of exactly that scalar and
  the entry's value; if the first pass recorded nothing for the front location, the
  output has no entry for it either.
\<close>

lemma build_armor_allocation_entries:
  assumes "raw = before @ (key, val) # after"
  shows
   "(\<not> contains (mapped_loc key) ''REAR'' \<longrightarrow>
       (\<exists>f. map_of (first_pass raw []) (mapped_loc key) = Some (Scalar f)
          \<and> ((\<forall>(k, v) \<in> set after. mapped_loc k \<noteq> mapped_loc key) \<longrightarrow> f = val)
          \<and> (map_of (build_armor_allocation raw) (mapped_loc key) = Some (Scalar f)
             \<or> (\<exists>(k, r) \<in> set raw. contains (mapped_loc k) ''REAR''
                  \<and> replace (mapped_loc k) ''_REAR'' '''' = mapped_loc key
                  \<and> map_of (build_armor_allocation raw) (mapped_loc key)
                     = Some (FrontRear f r)))
          \<and> ((\<forall>(k, r) \<in> set raw. contains (mapped_loc k) ''REAR'' \<longrightarrow>
                  replace (mapped_loc k) ''_REAR'' '''' \<noteq> mapped_loc key) \<longrightarrow>
               map_of (build_armor_allocation raw) (mapped_loc key) = Some (Scalar f))))
  \<and> (contains (mapped_loc key) ''REAR'' \<longrightarrow>
       map_of (build_armor_allocation raw) (mapped_loc key) = None
     \<and> (\<forall>f. map_of (second_pass before (first_pass raw []))
                (replace (mapped_loc key) ''_REAR'' '''') = Some (Scalar f) \<longrightarrow>
           map_of (first_pass raw []) (replace (mapped_loc key) ''_REAR'' '''') = Some (Scalar f)
         \<and> map_of (build_armor_allocation raw) (replace (mapped_loc key) ''_REAR'' '''')
             = Some (FrontRear f val))
     \<and> (\<forall>f. map_of (first_pass raw []) (replace (mapped_loc key) ''_REAR'' '''')
                = Some (Scalar f)
             \<and> (\<forall>(k, v) \<in> set before. contains (mapped_loc k) ''REAR'' \<longrightarrow>
                  replace (mapped_loc k) ''_REAR'' '''' \<noteq> replace (mapped_loc key) ''_REAR'' '''')
           \<longrightarrow> map_of (build_armor_allocation raw) (replace (mapped_loc key) ''_REAR'' '''')
             = Some (FrontRear f val))
     \<and> (map_of (first_pass raw []) (replace (mapped_loc key) ''_REAR'' '''') = None \<longrightarrow>
           map_of (build_armor_allocation raw) (replace (mapped_loc key) ''_REAR'' '''') = None))"
proof (intro conjI impI)
  assume nr: "\<not> contains (mapped_loc key) ''REAR''"
  let ?loc = "mapped_loc key"
  have mem: "(key, val) \<in> set raw" using assms by simp
  have "map_of (first_pass raw []) ?loc \<noteq> None"
    using nr mem by (auto simp: first_pass_None)
  then obtain x where x: "map_of (first_pass raw []) ?loc = Some x" by blast
  from first_pass_Some [OF x] obtain f where f: "x = Scalar f" by auto
  have p1: "map_of (first_pass raw []) ?loc = Some (Scalar f)" using x f by simp
  have last: "(\<forall>(k, v) \<in> set after. mapped_loc k \<noteq> ?loc) \<longrightarrow> f = val"
  proof
    assume "\<forall>(k, v) \<in> set after. mapped_loc k \<noteq> ?loc"
    from first_pass_last_entry [OF nr this, of before val "[]"] p1 assms
    show "f = val" by simp
  qed
  have either: "map_of (build_armor_allocation raw) ?loc = Some (Scalar f)
             \<or> (\<exists>(k, r) \<in> set raw. contains (mapped_loc k) ''REAR''
                  \<and> replace (mapped_loc k) ''_REAR'' '''' = ?loc
                  \<and> map_of (build_armor_allocation raw) ?loc = Some (FrontRear f r))"
    unfolding build_armor_allocation_def by (rule second_pass_scalar [OF p1])
  have norear: "(\<forall>(k, r) \<in> set raw. contains (mapped_loc k) ''REAR'' \<longrightarrow>
                  replace (mapped_loc k) ''_REAR'' '''' \<noteq> ?loc) \<longrightarrow>
               map_of (build_armor_allocation raw) ?loc = Some (Scalar f)"
    unfolding build_armor_allocation_def using second_pass_other [of raw ?loc] p1 by simp
  show "\<exists>f. map_of (first_pass raw []) ?loc = Some (Scalar f)
          \<and> ((\<forall>(k, v) \<in> set after. mapped_loc k \<noteq> ?loc) \<longrightarrow> f = val)
          \<and> (map_of (build_armor_allocation raw) ?loc = Some (Scalar f)
             \<or> (\<exists>(k, r) \<in> set raw. contains (mapped_loc k) ''REAR''
                  \<and> replace (mapped_loc k) ''_REAR'' '''' = ?loc
                  \<and> map_of (build_armor_allocation raw) ?loc = Some (FrontRear f r)))
          \<and> ((\<forall>(k, r) \<in> set raw. contains (mapped_loc k) ''REAR'' \<longrightarrow>
                  replace (mapped_loc k) ''_REAR'' '''' \<noteq> ?loc) \<longrightarrow>
               map_of (build_armor_allocation raw) ?loc = Some (Scalar f))"
    using p1 last either norear by blast
next
  assume r: "contains (mapped_loc key) ''REAR''"
  have "map_of (first_pass raw []) (mapped_loc key) = None"
    using r by (auto simp: first_pass_None)
  then show "map_of (build_armor_allocation raw) (mapped_loc key) = None"
    by (simp add: build_armor_allocation_def second_pass_None)
next
  assume r: "contains (mapped_loc key) ''REAR''"
  let ?fl = "replace (mapped_loc key) ''_REAR'' ''''"
  show "\<forall>f. map_of (second_pass before (first_pass raw [])) ?fl = Some (Scalar f) \<longrightarrow>
           map_of (first_pass raw []) ?fl = Some (Scalar f)
         \<and> map_of (build_armor_allocation raw) ?fl = Some (FrontRear f val)"
  proof (intro allI impI conjI)
    fix f assume s: "map_of (second_pass before (first_pass raw [])) ?fl = Some (Scalar f)"
    show "map_of (first_pass raw []) ?fl = Some (Scalar f)"
      by (rule second_pass_scalar_rev [OF s])
    show "map_of (build_armor_allocation raw) ?fl = Some (FrontRear f val)"
      unfolding build_armor_allocation_def
      using second_pass_rear_entry [OF r s, of val after] assms by simp
  qed
next
  assume r: "contains (mapped_loc key) ''REAR''"
  let ?fl = "replace (mapped_loc key) ''_REAR'' ''''"
  show "\<forall>f. map_of (first_pass raw []) ?fl = Some (Scalar f)
             \<and> (\<forall>(k, v) \<in> set before. contains (mapped_loc k) ''REAR'' \<longrightarrow>
                  replace (mapped_loc k) ''_REAR'' '''' \<noteq> ?fl)
           \<longrightarrow> map_of (build_armor_allocation raw) ?fl = Some (FrontRear f val)"
  proof (intro allI impI)
    fix f assume a: "map_of (first_pass raw []) ?fl = Some (Scalar f)
             \<and> (\<forall>(k, v) \<in> set before. contains (mapped_loc k) ''REAR'' \<longrightarrow>
                  replace (mapped_loc k) ''_REAR'' '''' \<noteq> ?fl)"
    then have s: "map_of (second_pass before (first_pass raw [])) ?fl = Some (Scalar f)"
      using second_pass_other [of before ?fl "first_pass raw []"] by simp
    show "map_of (build_armor_allocation raw) ?fl = Some (FrontRear f val)"
      unfolding build_armor_allocation_def
      using second_pass_rear_entry [OF r s, of val after] assms by simp
  qed
next
  assume "contains (mapped_loc key) ''REAR''"
    and "map_of (first_pass raw []) (replace (mapped_loc key) ''_REAR'' '''') = None"
  then show "map_of (build_armor_allocation raw) (replace (mapped_loc key) ''_REAR'' '''') = None"
    by (simp add: build_armor_allocation_def second_pass_None)
qed

lemma armor_example:
  "build_armor_allocation [(''LT'', 10), (''RTL'', 5), (''RTC'', 7), (''HD'', 9)]
   = [(''LEFT_TORSO'', FrontRear 10 5), (''HEAD'', Scalar 9)]"
  by (simp add: build_armor_allocation_def mapped_loc_def loc_map_def replace_def)

lemma build_armor_allocation_entries_example:
  "map_of (build_armor_allocation [(''LT'', 10), (''RTL'', 5), (''RTC'', 7), (''HD'', 9)])
      ''HEAD'' = Some (Scalar 9)
   \<and> map_of (build_armor_allocation [(''LT'', 10), (''RTL'', 5), (''RTC'', 7), (''HD'', 9)])
      ''LEFT_TORSO'' = Some (FrontRear 10 5)
   \<and> map_of (build_armor_allocation [(''LT'', 10), (''RTL'', 5), (''RTC'', 7), (''HD'', 9)])
      ''LEFT_TORSO_REAR'' = None
   \<and> map_of (first_pass [(''LT'', 10), (''RTL'', 5), (''RTC'', 7), (''HD'', 9)] [])
      ''CENTER_TORSO'' = None
   \<and> map_of (build_armor_allocation [(''LT'', 10), (''RTL'', 5), (''RTC'', 7), (''HD'', 9)])
      ''CENTER_TORSO'' = None"
proof -
  have m: "mapped_loc ''LT'' = ''LEFT_TORSO''" "mapped_loc ''RTL'' = ''LEFT_TORSO_REAR''"
    "mapped_loc ''RTC'' = ''CENTER_TORSO_REAR''" "mapped_loc ''HD'' = ''HEAD''"
    by (simp_all add: mapped_loc_def loc_map_def)
  have r: "replace ''LEFT_TORSO_REAR'' ''_REAR'' '''' = ''LEFT_TORSO''"
    "replace ''CENTER_TORSO_REAR'' ''_REAR'' '''' = ''CENTER_TORSO''"
    by (simp_all add: replace_def)
  have p: "first_pass [(''LT'', 10), (''RTL'', 5), (''RTC'', 7), (''HD'', 9)] []
      = [(''LEFT_TORSO'', Scalar 10), (''HEAD'', Scalar 9)]"
    by (simp add: m)
  have hd: "map_of (build_armor_allocation [(''LT'', 10), (''RTL'', 5), (''RTC'', 7), (''HD'', 9)])
      ''HEAD'' = Some (Scalar 9)"
    using build_armor_allocation_entries
      [of "[(''LT'', 10), (''RTL'', 5), (''RTC'', 7), (''HD'', 9)]"
          "[(''LT'', 10), (''RTL'', 5), (''RTC'', 7)]" "''HD''" 9 "[]"]
    by (simp add: m r p)
  have lt: "map_of (build_armor_allocation [(''LT'', 10), (''RTL'', 5), (''RTC'', 7), (''HD'', 9)])
      ''LEFT_TORSO'' = Some (FrontRear 10 5)
     \<and> map_of (build_armor_allocation [(''LT'', 10), (''RTL'', 5), (''RTC'', 7), (''HD'', 9)])
      ''LEFT_TORSO_REAR'' = None"
    using build_armor_allocation_entries
      [of "[(''LT'', 10), (''RTL'', 5), (''RTC'', 7), (''HD'', 9)]"
          "[(''LT'', 10)]" "''RTL''" 5 "[(''RTC'', 7), (''HD'', 9)]"]
    by (simp add: m r p)
  have ct: "map_of (first_pass [(''LT'', 10), (''RTL'', 5), (''RTC'', 7), (''HD'', 9)] [])
      ''CENTER_TORSO'' = None
     \<and> map_of (build_armor_allocation [(''LT'', 10), (''RTL'', 5), (''RTC'', 7), (''HD'', 9)])
      ''CENTER_TORSO'' = None"
    using build_armor_allocation_entries
      [of "[(''LT'', 10), (''RTL'', 5), (''RTC'', 7), (''HD'', 9)]"
          "[(''LT'', 10), (''RTL'', 5)]" "''RTC''" 7 "[(''HD'', 9)]"]
    by (simp add: m r p)
  show ?thesis using hd lt ct by simp
qed

text \<open>
  Claim C2 says that every entry whose mapped location does not denote a rear facing
  gives a scalar under the mapped name; the rear facings are the three rear torso
  codes, which the table maps to \<open>LEFT_TORSO_REAR\<close>, \<open>RIGHT_TORSO_REAR\<close> and
  \<open>CENTER_TORSO_REAR\<close>. The code takes every mapped name that contains the letters
  REAR for a rear facing. The line "Rear Left Leg armor:18" gives the raw key
  \<open>REAR_LEFT_LEG\<close>, which the table leaves as it is and which names a leg of six
  slots in the slot table of the same class. The first pass skips the entry, the second
  pass finds no front location called \<open>REAR_LEFT_LEG\<close>, and the value 18 is in the
  output under no name.
\<close>

theorem build_armor_allocation_rear_leg:
  "mapped_loc ''REAR_LEFT_LEG'' = ''REAR_LEFT_LEG''
   \<and> ''REAR_LEFT_LEG'' \<notin> set [''LEFT_TORSO_REAR'', ''RIGHT_TORSO_REAR'', ''CENTER_TORSO_REAR'']
   \<and> max_slots_of ''REAR_LEFT_LEG'' = 6
   \<and> map_sum id armor_allocation
        (parse_raw sample_builtins [''LL armor:20'', ''Rear Left Leg armor:18''])
      = Inr [(''LL'', 20), (''REAR_LEFT_LEG'', 18)]
   \<and> build_armor_allocation [(''LL'', 20), (''REAR_LEFT_LEG'', 18)] = [(''LEFT_LEG'', Scalar 20)]
   \<and> map_of (build_armor_allocation [(''LL'', 20), (''REAR_LEFT_LEG'', 18)]) ''REAR_LEFT_LEG''
      = None"
proof -
  have "map_sum id armor_allocation
        (parse_raw sample_builtins [''LL armor:20'', ''Rear Left Leg armor:18''])
      = Inr [(''LL'', 20), (''REAR_LEFT_LEG'', 18)]"
    by code_simp
  moreover have "build_armor_allocation [(''LL'', 20), (''REAR_LEFT_LEG'', 18)]
      = [(''LEFT_LEG'', Scalar 20)]"
    by (simp add: build_armor_allocation_def mapped_loc_def loc_map_def replace_def)
  moreover have "mapped_loc ''REAR_LEFT_LEG'' = ''REAR_LEFT_LEG''"
    by (simp add: mapped_loc_def loc_map_def)
  moreover have "max_slots_of ''REAR_LEFT_LEG'' = 6"
    by (simp add: max_slots_of_def slot_counts_def)
  ultimately show ?thesis by simp
qed

subsection \<open>The engine value\<close>



lemma paren_group_complete:
  assumes "q \<noteq> []" "CHR '')'' \<notin> set q" "at_end nl"
  shows "paren_group (''('' @ q @ '')'' @ nl) = Some q"
proof -
  have a: "\<forall>x \<in> set q. x \<noteq> CHR '')''" using assms(2) by auto
  have t: "takeWhile (\<lambda>x. x \<noteq> CHR '')'') (q @ CHR '')'' # nl) = q"
    using a by (simp add: takeWhile_append2)
  have d: "dropWhile (\<lambda>x. x \<noteq> CHR '')'') (q @ CHR '')'' # nl) = CHR '')'' # nl"
    using a by (simp add: dropWhile_append2)
  show ?thesis using assms(1,3) by (simp add: paren_group_def t d)
qed











lemma engine_pattern_alt:
  "engine_pattern v g1 ws g2 g3 nl \<longleftrightarrow>
     v = g1 @ ws @ g2 @ paren_text g3 @ nl \<and> g1 \<noteq> [] \<and> list_all is_digit g1
     \<and> list_all is_space ws \<and> CHR 0x0A \<notin> set g2 \<and> qualifier_ok g3 \<and> at_end nl"
  by (simp add: engine_pattern_def paren_text_def qualifier_ok_def)













lemma int_of_digits_eq:
  "int_of_digits m ds =
     (if 640 < length ds \<and> 0 < m \<and> m < length ds then None else Some (digits_value ds))"
  by (simp add: int_of_digits_def)



text \<open>The reading of the pattern with given rating digits, whitespace and length of the
  type words is unique.\<close>

lemma paren_text_unique:
  assumes "paren_text g3 @ nl = paren_text h3 @ hl" "qualifier_ok g3" "qualifier_ok h3"
    "at_end nl" "at_end hl"
  shows "g3 = h3 \<and> nl = hl"
proof -
  have a: "tail_match (paren_text g3 @ nl) = Some g3" if "qualifier_ok g3" "at_end nl" for g3 nl
  proof (cases g3)
    case None
    then show ?thesis using that(2)
      by (auto simp: tail_match_def paren_text_def paren_group_def at_end_def)
  next
    case (Some q)
    with that have "paren_group (''('' @ q @ '')'' @ nl) = Some q"
      by (intro paren_group_complete) (auto simp: qualifier_ok_def)
    then show ?thesis using Some by (simp add: tail_match_def paren_text_def)
  qed
  have "Some g3 = Some h3" using a [OF assms(2,4)] a [OF assms(3,5)] assms(1) by simp
  then show ?thesis using assms(1) by simp
qed

lemma engine_pattern_unique:
  assumes "engine_pattern v g1 ws g2 g3 nl" "engine_pattern v g1 ws h2 h3 hl"
    "length g2 = length h2"
  shows "g2 = h2 \<and> g3 = h3 \<and> nl = hl"
proof -
  from assms(1,2) have "g1 @ ws @ g2 @ paren_text g3 @ nl = g1 @ ws @ h2 @ paren_text h3 @ hl"
    by (simp add: engine_pattern_alt)
  then have "g2 @ paren_text g3 @ nl = h2 @ paren_text h3 @ hl" by simp
  with assms(3) have e: "g2 = h2" "paren_text g3 @ nl = paren_text h3 @ hl" by simp_all
  from assms(1,2) have "qualifier_ok g3" "qualifier_ok h3" "at_end nl" "at_end hl"
    by (simp_all add: engine_pattern_alt)
  with e(2) have "g3 = h3 \<and> nl = hl" by (intro paren_text_unique)
  with e(1) show ?thesis by simp
qed









subsection \<open>Equipment list\<close>

lemma lower_char_not_R: "lower_char c \<noteq> CHR ''R''"
proof (cases "is_upper c")
  case True
  then have b: "(of_char c :: nat) \<le> 222" and l: "(65::nat) \<le> of_char c"
    by (auto simp: is_upper_def Let_def)
  have "(of_char (lower_char c) :: nat) = (of_char c + 32) mod 256"
    using True by (simp add: lower_char_def)
  also have "\<dots> = of_char c + 32" using b by simp
  finally have ge: "(of_char (lower_char c) :: nat) \<ge> 97" using l by simp
  show ?thesis
  proof
    assume "lower_char c = CHR ''R''"
    then have "(of_char (lower_char c) :: nat) = 82" by simp
    with ge show False by simp
  qed
next
  case False
  moreover have "is_upper (CHR ''R'')" by (simp add: is_upper_def)
  ultimately show ?thesis by (auto simp: lower_char_def)
qed

lemma startswith_set: "startswith s p \<Longrightarrow> set p \<subseteq> set s"
  by (induction s p rule: startswith.induct) auto

lemma contains_set: "contains s p \<Longrightarrow> set p \<subseteq> set s"
proof (induction s)
  case Nil
  then show ?case by simp
next
  case (Cons a s)
  from Cons.prems have "startswith (a # s) p \<or> contains s p" by simp
  then show ?case
  proof
    assume "startswith (a # s) p"
    then show ?thesis by (rule startswith_set)
  next
    assume "contains s p"
    from Cons.IH [OF this] show ?thesis by auto
  qed
qed

lemma contains_lower_Rear: "\<not> contains (lower s) ''(Rear)''"
proof
  assume "contains (lower s) ''(Rear)''"
  then have "CHR ''R'' \<in> set (lower s)" by (auto dest: contains_set)
  then obtain x where "lower_char x = CHR ''R''" by (auto simp: lower_def)
  then show False by (simp add: lower_char_not_R)
qed

lemma build_equipment_is_rear:
  "eq_isRearMounted (build_equipment neid mml weapon)
     = (if contains (weapon_name weapon) ''(R)'' then Some True else None)"
  by (simp add: build_equipment_def Let_def contains_lower_Rear)

lemma build_equipment_id:
  "eq_id (build_equipment neid mml weapon)
     = neid (strip (replace (replace (weapon_name weapon) ''(R)'' '''') ''(r)'' ''''))"
  by (simp add: build_equipment_def Let_def)

lemma medium_laser_R_example:
  "build_equipment_list neid mml
     [\<lparr>weapon_name = ''Medium Laser(R)'', weapon_location = ''Left Arm''\<rparr>]
   = [\<lparr>eq_id = neid ''Medium Laser'', eq_location = mml ''Left Arm'', eq_slots = None,
       eq_isRearMounted = Some True, eq_linkedAmmo = None\<rparr>]"
  by (simp add: build_equipment_list_def build_equipment_def Let_def replace_def strip_def
      is_space_def)

text \<open>
  Claim C4 says that a weapon name containing "(Rear)" in any letter case is flagged as
  rear-mounted and loses the marker. The code compares the lower-cased name with the
  literal "(Rear)", which has an upper-case letter, so that test never holds
  (\<open>contains_lower_Rear\<close>), and it removes only "(R)" and "(r)". Evaluated on the
  names "Medium Laser (Rear)" and "Medium Laser (rear)": no rear-mount flag, and the
  identifier is derived from the whole name, marker included.
\<close>

theorem build_equipment_list_rear_word:
  "build_equipment_list neid mml
     [\<lparr>weapon_name = ''Medium Laser (Rear)'', weapon_location = ''Left Arm''\<rparr>,
      \<lparr>weapon_name = ''Medium Laser (rear)'', weapon_location = ''Left Arm''\<rparr>]
   = [\<lparr>eq_id = neid ''Medium Laser (Rear)'', eq_location = mml ''Left Arm'', eq_slots = None,
       eq_isRearMounted = None, eq_linkedAmmo = None\<rparr>,
      \<lparr>eq_id = neid ''Medium Laser (rear)'', eq_location = mml ''Left Arm'', eq_slots = None,
       eq_isRearMounted = None, eq_linkedAmmo = None\<rparr>]"
  by (simp add: build_equipment_list_def build_equipment_def Let_def replace_def strip_def
      is_space_def contains_lower_Rear)

subsection \<open>The assembler\<close>

lemma u_fluff_build_unit:
  "build_unit b c d filepath = Some u \<Longrightarrow> u_fluff u = build_fluff d"
  unfolding build_unit_def Let_def by (auto split: if_splits)

text \<open>
  Claim C3. A record in which no chassis was captured gives no unit:
  \<open>_build_unit\<close> returns \<open>None\<close>, whatever the other fields, the built-in
  operations and the mapping functions are.
\<close>

theorem build_unit_no_chassis:
  "chassis d = None \<Longrightarrow> build_unit b c d filepath = None"
  unfolding build_unit_def Let_def get_or_def by simp

theorem build_unit_no_chassis_witness:
  "chassis (initial_data\<lparr>model := Some ''AS7-D''\<rparr>) = None \<and>
   build_unit sample_builtins sample_collaborators (initial_data\<lparr>model := Some ''AS7-D''\<rparr>)
     ''atlas.mtf'' = None"
  using build_unit_no_chassis [of "initial_data\<lparr>model := Some ''AS7-D''\<rparr>"
      sample_builtins sample_collaborators "''atlas.mtf''"]
  by (simp add: initial_data_def)

text \<open>
  Claim C8. A record whose chassis is the text "Unknown" gives no unit either, and the
  result is the one of the same record without a chassis: the default that stands for a
  missing chassis is the same text.
\<close>

theorem build_unit_chassis_Unknown:
  "chassis d = Some ''Unknown'' \<Longrightarrow>
     build_unit b c d filepath = None \<and>
     build_unit b c d filepath = build_unit b c (d\<lparr>chassis := None\<rparr>) filepath"
  unfolding build_unit_def Let_def get_or_def by simp

theorem build_unit_chassis_Unknown_witness:
  "chassis (initial_data\<lparr>chassis := Some ''Unknown'', model := Some ''AS7-D''\<rparr>) = Some ''Unknown'' \<and>
   build_unit sample_builtins sample_collaborators
     (initial_data\<lparr>chassis := Some ''Unknown'', model := Some ''AS7-D''\<rparr>) ''atlas.mtf'' = None"
  using build_unit_chassis_Unknown
    [of "initial_data\<lparr>chassis := Some ''Unknown'', model := Some ''AS7-D''\<rparr>"
        sample_builtins sample_collaborators "''atlas.mtf''"]
  by simp

text \<open>
  Claim C7. A unit that was assembled carries a fluff block exactly when the fluff map
  of the record is not empty, that is when a narrative field was captured: any of
  overview, capabilities, deployment, history, variants, notable_pilots, notes.
  Manufacturer data does not decide it: captured alone it gives no block, and it is
  carried in the block when there is one.
\<close>

theorem build_unit_fluff_block:
  assumes "build_unit b c d filepath = Some u"
  shows "(u_fluff u \<noteq> None \<longleftrightarrow> fluff d \<noteq> []) \<and>
         (\<forall>f. u_fluff u = Some f \<longrightarrow>
            f_manufacturer f = manufacturer d \<and> f_primaryFactory f = primary_factory d \<and>
            f_systemManufacturer f =
              (if system_manufacturers d \<noteq> [] then Some (system_manufacturers d) else None))"
proof -
  have "u_fluff u = build_fluff d" using assms by (rule u_fluff_build_unit)
  then show ?thesis unfolding build_fluff_def Let_def by auto
qed

lemma build_unit_Some_the:
  "get_or (chassis d) ''Unknown'' \<noteq> ''Unknown'' \<Longrightarrow>
   build_unit b c d filepath = Some (the (build_unit b c d filepath))"
  unfolding build_unit_def Let_def by simp

theorem build_unit_fluff_block_witness:
  "build_unit sample_builtins sample_collaborators
     (initial_data\<lparr>chassis := Some ''Atlas'', fluff := [(''overview'', ''An assault mech'')],
        manufacturer := Some ''Defiance''\<rparr>) ''atlas.mtf'' \<noteq> None \<and>
   map_option f_manufacturer (u_fluff (the (build_unit sample_builtins sample_collaborators
     (initial_data\<lparr>chassis := Some ''Atlas'', fluff := [(''overview'', ''An assault mech'')],
        manufacturer := Some ''Defiance''\<rparr>) ''atlas.mtf''))) = Some (Some ''Defiance'')"
proof -
  let ?d = "initial_data\<lparr>chassis := Some ''Atlas'', fluff := [(''overview'', ''An assault mech'')],
        manufacturer := Some ''Defiance''\<rparr>"
  let ?u = "the (build_unit sample_builtins sample_collaborators ?d ''atlas.mtf'')"
  have s: "build_unit sample_builtins sample_collaborators ?d ''atlas.mtf'' = Some ?u"
    by (rule build_unit_Some_the) (simp add: get_or_def)
  have f: "fluff ?d \<noteq> []" by simp
  from build_unit_fluff_block [OF s] f obtain x where x: "u_fluff ?u = Some x"
    "f_manufacturer x = manufacturer ?d" by auto
  have 1: "build_unit sample_builtins sample_collaborators ?d ''atlas.mtf'' \<noteq> None"
    using s by (metis option.distinct(1))
  have 2: "map_option f_manufacturer (u_fluff ?u) = Some (Some ''Defiance'')"
    unfolding x(1) using x(2) by simp
  from 1 2 show ?thesis by (rule conjI)
qed

text \<open>
  The lines "chassis:Atlas" and "manufacturer:Defiance" give a record with a
  manufacturer and no narrative field; the unit assembled from it has no fluff block.
\<close>

theorem manufacturer_without_fluff:
  "map_sum id manufacturer
     (parse_raw sample_builtins [''chassis:Atlas'', ''manufacturer:Defiance''])
     = Inr (Some ''Defiance'') \<and>
   map_sum id fluff
     (parse_raw sample_builtins [''chassis:Atlas'', ''manufacturer:Defiance''])
     = Inr [] \<and>
   map_option u_chassis
     (parse_file sample_builtins sample_collaborators
        [''chassis:Atlas'', ''manufacturer:Defiance''] ''atlas.mtf'')
     = Some ''Atlas'' \<and>
   map_option u_fluff
     (parse_file sample_builtins sample_collaborators
        [''chassis:Atlas'', ''manufacturer:Defiance''] ''atlas.mtf'')
     = Some None"
  by code_simp

subsection \<open>The line scanner\<close>

lemma parse_key_value_keeps:
  assumes "parse_key_value b key val d = Inr d'"
  shows "fluff d' = fluff d \<and> criticals d' = criticals d"
  using assms unfolding parse_key_value_def Let_def
  by (auto split: if_splits option.splits float_int.splits prod.splits sum.splits)

lemma key_value_line_keeps:
  assumes "key_value_line b st lc = Inr st'"
  shows "\<exists>d'. st' = st\<lparr>data := d'\<rparr> \<and> fluff d' = fluff (data st) \<and> criticals d' = criticals (data st)"
  using assms unfolding key_value_line_def Let_def
  by (auto split: prod.splits sum.splits dest: parse_key_value_keeps)


lemma store_section_other:
  "fluff (data (store_section st)) = fluff (data st)"
  "in_fluff (store_section st) = in_fluff st"
  "current_fluff_field (store_section st) = current_fluff_field st"
  "fluff_buffer (store_section st) = fluff_buffer st"
  "current_section (store_section st) = current_section st"
  "current_section_items (store_section st) = current_section_items st"
  "in_weapons_section (store_section st) = in_weapons_section st"
  unfolding store_section_def by (auto split: option.splits)

lemma store_section_empty:
  "current_section_items st = [] \<Longrightarrow> store_section st = st"
  unfolding store_section_def by (auto split: option.splits)







lemma in_fluff_kept:
  "in_fluff (header_line st lc) = in_fluff st"
  "in_fluff (weapon_line st lc) = in_fluff st"
  "in_fluff (append_item st lc) = in_fluff st"
  unfolding header_line_def weapon_line_def append_item_def Let_def
  by (auto simp: store_section_other split: prod.splits option.splits)

lemma parse_line_fluff_field:
  assumes "parse_line b st ln = Inr st'"
    and "in_fluff st \<longrightarrow> current_fluff_field st \<noteq> None"
  shows "in_fluff st' \<longrightarrow> current_fluff_field st' \<noteq> None"
proof (cases "strip ln = [] \<or> startswith (strip ln) ''#''")
  case True
  then show ?thesis using assms unfolding parse_line_def Let_def
    by (auto split: if_splits)
next
  case False
  show ?thesis
  proof (cases "find (\<lambda>field. startswith (lower (strip ln)) (field @ '':'')) fluff_fields")
    case (Some f)
    then show ?thesis using assms(1) False unfolding parse_line_def Let_def by auto
  next
    case None
    show ?thesis
    proof (cases "in_fluff st")
      case True
      then show ?thesis using assms None False unfolding parse_line_def Let_def by auto
    next
      case nf: False
      have "in_fluff st' = in_fluff st"
        using assms(1) None False nf unfolding parse_line_def Let_def
        by (auto split: if_splits simp: in_fluff_kept store_section_other
            dest: key_value_line_keeps)
      then show ?thesis using nf by simp
    qed
  qed
qed












lemma endswith_colon: "endswith (name @ '':'') '':''"
  by (simp add: endswith_def)


lemma parse_line_header_shaped:
  assumes "\<not> in_fluff st" and "strip ln = name @ '':''" and "\<not> contains name '':''"
    and "\<not> startswith (strip ln) ''#''"
    and "find (\<lambda>field. startswith (lower (strip ln)) (field @ '':'')) fluff_fields = None"
  shows "parse_line b st ln = Inr (header_line st (name @ '':''))"
  unfolding parse_line_def Let_def using assms by (simp add: endswith_colon)


lemma header_line_unrecognised:
  assumes "name \<notin> set MECH_LOCATIONS"
  shows "header_line st (name @ '':'') = store_section st"
  using assms unfolding header_line_def Let_def MECH_LOCATIONS_def by simp

lemma header_line_recognised:
  assumes "name \<in> set MECH_LOCATIONS"
  shows "header_line st (name @ '':'') =
     (store_section st)\<lparr>current_section := Some name, current_section_items := [],
        items_stored := False, in_weapons_section := False\<rparr>"
  using assms unfolding header_line_def Let_def by simp

lemma store_section_data:
  "(data (store_section st))\<lparr>criticals := criticals (data st)\<rparr> = data st"
  unfolding store_section_def by (auto split: option.splits)











text \<open>
  Claim C5. Outside a fluff section, a line that ends with a colon, has no other colon,
  is no comment and no fluff header takes the section-header branch, whatever stands
  before the colon. When that text is not a recognised location name, the items of the
  open section are stored in the critical-slot map (\<open>store_section\<close>), nothing else
  of the record changes, the open section and the weapons mode stay as they are, and the
  line does not reach the field interpreter. When the text is a recognised location name
  the section is switched.
\<close>

theorem header_shaped_line_not_dispatched:
  assumes "\<not> in_fluff st" and "strip ln = name @ '':''" and "\<not> contains name '':''"
    and "\<not> startswith (strip ln) ''#''"
    and "find (\<lambda>field. startswith (lower (strip ln)) (field @ '':'')) fluff_fields = None"
  shows "parse_line b st ln = Inr (header_line st (name @ '':''))
    \<and> (name \<notin> set MECH_LOCATIONS \<longrightarrow>
         header_line st (name @ '':'') = store_section st
       \<and> criticals (data (store_section st)) =
           (case current_section st of
              None \<Rightarrow> criticals (data st)
            | Some s \<Rightarrow>
                if s \<noteq> [] \<and> current_section_items st \<noteq> []
                then AList.update s (current_section_items st) (criticals (data st))
                else criticals (data st))
       \<and> (data (store_section st))\<lparr>criticals := criticals (data st)\<rparr> = data st
       \<and> current_section (store_section st) = current_section st
       \<and> current_section_items (store_section st) = current_section_items st
       \<and> in_weapons_section (store_section st) = in_weapons_section st
       \<and> (current_section_items st = [] \<longrightarrow> parse_line b st ln = Inr st))
    \<and> (name \<in> set MECH_LOCATIONS \<longrightarrow>
         header_line st (name @ '':'') =
           (store_section st)\<lparr>current_section := Some name, current_section_items := [],
              items_stored := False, in_weapons_section := False\<rparr>)"
proof -
  have p: "parse_line b st ln = Inr (header_line st (name @ '':''))"
    using assms by (rule parse_line_header_shaped)
  have u: "header_line st (name @ '':'') = store_section st" if "name \<notin> set MECH_LOCATIONS"
    using that by (rule header_line_unrecognised)
  have e: "parse_line b st ln = Inr st"
    if "name \<notin> set MECH_LOCATIONS" "current_section_items st = []"
    using p u [OF that(1)] store_section_empty [OF that(2)] by simp
  have c: "criticals (data (store_section st)) =
           (case current_section st of
              None \<Rightarrow> criticals (data st)
            | Some s \<Rightarrow>
                if s \<noteq> [] \<and> current_section_items st \<noteq> []
                then AList.update s (current_section_items st) (criticals (data st))
                else criticals (data st))"
    unfolding store_section_def by (simp split: option.splits)
  show ?thesis
    using p u e c header_line_recognised [of name st] store_section_data [of st]
      store_section_other(5,6,7) [of st]
    by (intro conjI impI) simp_all
qed

theorem header_shaped_line_not_dispatched_witness:
  "\<not> in_fluff initial_state \<and> strip ''model:'' = ''model'' @ '':''
   \<and> ''model'' \<notin> set MECH_LOCATIONS
   \<and> parse_line sample_builtins initial_state ''model:'' = Inr initial_state
   \<and> header_line initial_state ''Head:'' =
        initial_state\<lparr>current_section := Some ''Head''\<rparr>"
proof -
  have 1: "\<not> in_fluff initial_state" by (simp add: initial_state_def)
  have 2: "strip ''model:'' = ''model'' @ '':''" by (simp add: strip_def is_space_def)
  have 3: "\<not> contains ''model'' '':''" by simp
  have 4: "\<not> startswith (strip ''model:'') ''#''" unfolding 2 by simp
  have 5: "find (\<lambda>field. startswith (lower (strip ''model:'')) (field @ '':'')) fluff_fields = None"
    unfolding 2 by (simp add: fluff_fields_def lower_def lower_char_def is_upper_def)
  have 6: "''model'' \<notin> set MECH_LOCATIONS" by (simp add: MECH_LOCATIONS_def)
  have 7: "current_section_items initial_state = []" by (simp add: initial_state_def)
  have h2: "strip ''Head:'' = ''Head'' @ '':''" by (simp add: strip_def is_space_def)
  have h3: "\<not> contains ''Head'' '':''" by simp
  have h4: "\<not> startswith (strip ''Head:'') ''#''" unfolding h2 by simp
  have h5: "find (\<lambda>field. startswith (lower (strip ''Head:'')) (field @ '':'')) fluff_fields = None"
    unfolding h2 by (simp add: fluff_fields_def lower_def lower_char_def is_upper_def)
  have h6: "''Head'' \<in> set MECH_LOCATIONS" by (simp add: MECH_LOCATIONS_def)
  have 8: "store_section initial_state = initial_state"
    by (simp add: store_section_def initial_state_def)
  have a: "parse_line sample_builtins initial_state ''model:'' = Inr initial_state"
    using header_shaped_line_not_dispatched [OF 1 2 3 4 5, of sample_builtins] 6 7 by blast
  have "header_line initial_state (''Head'' @ '':'') =
           (store_section initial_state)\<lparr>current_section := Some ''Head'',
              current_section_items := [], items_stored := False, in_weapons_section := False\<rparr>"
    using header_shaped_line_not_dispatched [OF 1 h2 h3 h4 h5, of sample_builtins] h6 by blast
  then have b: "header_line initial_state ''Head:'' =
        initial_state\<lparr>current_section := Some ''Head''\<rparr>"
    unfolding 8 by (simp add: initial_state_def)
  show ?thesis using 1 2 6 a b by simp
qed

lemma model_line_example:
  "parse_line sample_builtins initial_state ''model:'' = Inr initial_state"
  by (simp add: parse_line_def Let_def strip_def is_space_def fluff_fields_def lower_def
      lower_char_def is_upper_def endswith_def header_line_def store_section_def
      initial_state_def MECH_LOCATIONS_def)

text \<open>
  The line "model:" at the start of a file: the scanner leaves the state as it is; sent
  to the field interpreter the line would set the model to the empty text. After
  "chassis:Atlas" and "model:" the record has no model.
\<close>

theorem model_line_not_dispatched:
  "parse_line sample_builtins initial_state ''model:'' = Inr initial_state
   \<and> key_value_line sample_builtins initial_state ''model:''
       = Inr (initial_state\<lparr>data := initial_data\<lparr>model := Some []\<rparr>\<rparr>)
   \<and> map_sum id model (parse_raw sample_builtins [''chassis:Atlas'', ''model:'']) = Inr None"
proof -
  have "key_value_line sample_builtins initial_state ''model:''
       = Inr (initial_state\<lparr>data := initial_data\<lparr>model := Some []\<rparr>\<rparr>)"
    by (simp add: key_value_line_def split1_def Let_def strip_def is_space_def lower_def
        lower_char_def is_upper_def replace_def parse_key_value_def initial_state_def)
  moreover have "map_sum id model (parse_raw sample_builtins [''chassis:Atlas'', ''model:''])
      = Inr None"
    by code_simp
  ultimately show ?thesis using model_line_example by simp
qed





end
